theory Spec2Isabelle
  imports Complex_Main
begin

section \<open>Host values: exceptions, numbers and their texts\<close>

text \<open>
  The module under study is the last variant of \<^verbatim>\<open>src/ffmpeg.js\<close>: the functions
  \<^verbatim>\<open>readList\<close> and \<^verbatim>\<open>writeMasterList\<close>, the class \<^verbatim>\<open>Emission\<close> and the exported
  class \<^verbatim>\<open>FileStreaming\<close>. A thrown exception is a value of \<open>error\<close>; the reason of a
  rejected promise is the text the source passes to \<^verbatim>\<open>reject\<close>.
\<close>

datatype error = TypeError | ReferenceError | ENOENT

text \<open>
  A Number that holds a count (a media sequence number, a width, a bitrate) is a \<open>nat\<close>;
  the two agree below \<open>2 ^ 53\<close>. \<open>show_nat\<close> is the text a template literal gives such a
  Number, \<open>parse_nat\<close> is the Number that \<^verbatim>\<open>text * 1\<close> gives a run of decimal digits.
  From \<open>2 ^ 53\<close> on the runtime rounds to a double, and from \<open>10 ^ 21\<close> on it writes an
  exponent, which these two do not follow: what is proved of them is stated below
  \<open>2 ^ 53\<close>.
\<close>

definition is_digit :: "char \<Rightarrow> bool" where
  "is_digit c = (c \<in> set ''0123456789'')"

definition digit_char :: "nat \<Rightarrow> char" where
  "digit_char d = ''0123456789'' ! d"

definition digit_val :: "char \<Rightarrow> nat" where
  "digit_val c = of_char c - 48"

function show_nat :: "nat \<Rightarrow> string" where
  "show_nat n = (if n < 10 then [digit_char n] else show_nat (n div 10) @ [digit_char (n mod 10)])"
  by pat_completeness auto
termination
  by (relation "measure id") auto

declare show_nat.simps [simp del]

definition parse_nat :: "string \<Rightarrow> nat" where
  "parse_nat ds = foldl (\<lambda>a c. 10 * a + digit_val c) 0 ds"

text \<open>
  A Number that holds a duration is a \<open>rat option\<close>, \<open>None\<close> standing for NaN. The
  coercion \<^verbatim>\<open>Math.max\<close> applies to a text belongs to the runtime; it is a parameter of
  the model, of the type \<open>coercion\<close>.
\<close>

type_synonym number = "rat option"

type_synonym coercion = "string \<Rightarrow> number"

text \<open>\<^verbatim>\<open>Math.max(...xs)\<close>: NaN as soon as one argument is NaN, the greatest argument otherwise.\<close>

fun Math_max :: "number list \<Rightarrow> number" where
  "Math_max [] = None"
| "Math_max [x] = x"
| "Math_max (x # y # ys) =
     (case (x, Math_max (y # ys)) of (Some a, Some b) \<Rightarrow> Some (max a b) | _ \<Rightarrow> None)"

text \<open>
  The text of a duration Number in a template literal: \<^verbatim>\<open>NaN\<close>, the digits of a
  non-negative whole number, or its decimal expansion (at most 20 places are written).
\<close>

fun frac_digits :: "nat \<Rightarrow> nat \<Rightarrow> nat \<Rightarrow> string" where
  "frac_digits 0 num den = []"
| "frac_digits (Suc k) num den =
     (if num = 0 then []
      else digit_char ((10 * num) div den mod 10) # frac_digits k ((10 * num) mod den) den)"

definition show_number :: "number \<Rightarrow> string" where
  "show_number x =
     (case x of
        None \<Rightarrow> ''NaN''
      | Some q \<Rightarrow>
          (let (a, b) = quotient_of \<bar>q\<bar>; ip = nat a div nat b; fr = nat a mod nat b in
           (if q < 0 then ''-'' else []) @ show_nat ip @
           (if fr = 0 then [] else CHR ''.'' # frac_digits 20 fr (nat b))))"

section \<open>The playlist codec\<close>

text \<open>
  \<^verbatim>\<open>readList\<close> returns \<^verbatim>\<open>{duration, sequence, segment: {duration, file}}\<close>: the
  snapshot of one engine playlist. Both durations are the captured texts; the sequence is
  the captured digits times one.
\<close>

record seg =
  seg_duration :: string
  seg_file :: string

record snapshot =
  duration :: string
  sequence :: nat
  segment :: seg

definition LF :: char where
  "LF = CHR 0x0A"

definition CR :: char where
  "CR = CHR 0x0D"

fun strip_prefix :: "string \<Rightarrow> string \<Rightarrow> string option" where
  "strip_prefix [] s = Some s"
| "strip_prefix (p # ps) [] = None"
| "strip_prefix (p # ps) (c # cs) = (if p = c then strip_prefix ps cs else None)"

text \<open>
  \<^verbatim>\<open>text.match(re)\<close> without the \<^verbatim>\<open>g\<close> flag: the match at the leftmost position
  where the expression matches. \<open>search m\<close> tries the matcher \<open>m\<close> at every position from
  the left. In each expression of \<^verbatim>\<open>readList\<close> the repeated class is followed by a
  character outside it, so the greedy run is the only candidate at a position.
\<close>

fun search :: "(string \<Rightarrow> 'a option) \<Rightarrow> string \<Rightarrow> 'a option" where
  "search m [] = m []"
| "search m (c # cs) = (case m (c # cs) of Some x \<Rightarrow> Some x | None \<Rightarrow> search m cs)"

text \<open>\<^verbatim>\<open>/EXT-X-TARGETDURATION:([^\n]+)\n/\<close> at the start of a text: the capture.\<close>

definition targetduration_at :: "string \<Rightarrow> string option" where
  "targetduration_at s =
     (case strip_prefix ''EXT-X-TARGETDURATION:'' s of
        None \<Rightarrow> None
      | Some t \<Rightarrow>
          (let v = takeWhile (\<lambda>c. c \<noteq> LF) t; r = dropWhile (\<lambda>c. c \<noteq> LF) t in
           if v \<noteq> [] \<and> r \<noteq> [] then Some v else None))"

text \<open>\<^verbatim>\<open>/#EXT-X-MEDIA-SEQUENCE:(\d+)\n/\<close> at the start of a text: the capture.\<close>

definition mediasequence_at :: "string \<Rightarrow> string option" where
  "mediasequence_at s =
     (case strip_prefix ''#EXT-X-MEDIA-SEQUENCE:'' s of
        None \<Rightarrow> None
      | Some t \<Rightarrow>
          (let ds = takeWhile is_digit t; r = dropWhile is_digit t in
           if ds \<noteq> [] \<and> r \<noteq> [] \<and> hd r = LF then Some ds else None))"

text \<open>
  \<^verbatim>\<open>/#EXTINF:[^\n]+\n[^\n]+/\<close> at the start of a text: the rest of the tag's line and the
  whole next line.
\<close>

definition extinf_parts_at :: "string \<Rightarrow> (string \<times> string) option" where
  "extinf_parts_at s =
     (case strip_prefix ''#EXTINF:'' s of
        None \<Rightarrow> None
      | Some t \<Rightarrow>
          (let l1 = takeWhile (\<lambda>c. c \<noteq> LF) t; r1 = dropWhile (\<lambda>c. c \<noteq> LF) t in
           if l1 = [] \<or> r1 = [] then None
           else (let l2 = takeWhile (\<lambda>c. c \<noteq> LF) (tl r1) in
                 if l2 = [] then None else Some (l1, l2))))"

definition extinf_at :: "string \<Rightarrow> string option" where
  "extinf_at s = map_option (\<lambda>(l1, l2). ''#EXTINF:'' @ l1 @ [LF] @ l2) (extinf_parts_at s)"

text \<open>\<^verbatim>\<open>/#EXTINF:[^\n]+\n([^\n]+)/\<close> at the start of a text: the capture.\<close>

definition extinf_file_at :: "string \<Rightarrow> string option" where
  "extinf_file_at s = map_option snd (extinf_parts_at s)"

text \<open>\<^verbatim>\<open>/#EXTINF:([^,]+),\n/\<close> at the start of a text: the capture.\<close>

definition extinf_duration_at :: "string \<Rightarrow> string option" where
  "extinf_duration_at s =
     (case strip_prefix ''#EXTINF:'' s of
        None \<Rightarrow> None
      | Some t \<Rightarrow>
          (let x = takeWhile (\<lambda>c. c \<noteq> CHR '','') t; r = dropWhile (\<lambda>c. c \<noteq> CHR '','') t in
           if x \<noteq> [] \<and> take 2 r = [CHR '','', LF] then Some x else None))"

text \<open>
  \<^verbatim>\<open>data.match(/#EXTINF:[^\n]+\n[^\n]+/mg)\<close>: the matched texts from left to right, each
  search resuming where the previous match ended; the empty list stands for \<^verbatim>\<open>null\<close>.
\<close>

function match_all :: "string \<Rightarrow> string list" where
  "match_all [] = []"
| "match_all (c # cs) =
     (case extinf_at (c # cs) of
        Some m \<Rightarrow> m # match_all (drop (length m) (c # cs))
      | None \<Rightarrow> match_all cs)"
  by pat_completeness auto
termination
  by (relation "measure length") (auto simp: extinf_at_def)

text \<open>
  \<^verbatim>\<open>readList\<close> on the text of the file. Each \<^verbatim>\<open>match\<close> that finds nothing gives
  \<^verbatim>\<open>null\<close>, and reading \<^verbatim>\<open>.pop\<close> or \<^verbatim>\<open>[1]\<close> of it throws a TypeError.
\<close>

definition readList_text :: "string \<Rightarrow> error + snapshot" where
  "readList_text data =
     (case match_all data of
        [] \<Rightarrow> Inl TypeError
      | m # ms \<Rightarrow>
          (let segment = last (m # ms) in
           case search targetduration_at data of
             None \<Rightarrow> Inl TypeError
           | Some d \<Rightarrow>
               (case search mediasequence_at data of
                  None \<Rightarrow> Inl TypeError
                | Some q \<Rightarrow>
                    (case search extinf_duration_at segment of
                       None \<Rightarrow> Inl TypeError
                     | Some sd \<Rightarrow>
                         (case search extinf_file_at segment of
                            None \<Rightarrow> Inl TypeError
                          | Some f \<Rightarrow>
                              Inr \<lparr>duration = d, sequence = parse_nat q,
                                   segment = \<lparr>seg_duration = sd, seg_file = f\<rparr>\<rparr>)))))"

text \<open>
  The file system is a map from paths to texts. \<^verbatim>\<open>fs.readFileSync\<close> of a missing path
  throws.
\<close>

type_synonym filesystem = "string \<rightharpoonup> string"

definition readList :: "filesystem \<Rightarrow> string \<Rightarrow> error + snapshot" where
  "readList fs destinationPath =
     (case fs destinationPath of None \<Rightarrow> Inl ENOENT | Some data \<Rightarrow> readList_text data)"

text \<open>
  The object \<^verbatim>\<open>writeMasterList\<close> receives: \<^verbatim>\<open>{duration, sequence, segments}\<close>. A
  segment of it may carry the \<^verbatim>\<open>discontinuity\<close> property, which \<^verbatim>\<open>readList\<close> never
  sets.
\<close>

record vsegment =
  vs_duration :: string
  vs_file :: string
  discontinuity :: bool

record playlist =
  pl_duration :: number
  pl_sequence :: nat
  segments :: "vsegment list"

text \<open>\<^verbatim>\<open>lines.join(sep)\<close>.\<close>

fun join :: "string \<Rightarrow> string list \<Rightarrow> string" where
  "join sep [] = []"
| "join sep [x] = x"
| "join sep (x # y # ys) = x @ sep @ join sep (y # ys)"

text \<open>
  \<^verbatim>\<open>new URL(file, url).href\<close> belongs to the runtime. It is a parameter \<open>href\<close> of the
  model: \<open>href file url\<close> is \<open>None\<close> where the constructor throws. A \<^verbatim>\<open>url\<close> that is
  \<^verbatim>\<open>undefined\<close> is \<open>None\<close>; the empty text is falsy as well.
\<close>

type_synonym url_ctor = "string \<Rightarrow> string \<Rightarrow> string option"

definition truthy :: "string option \<Rightarrow> bool" where
  "truthy u = (case u of None \<Rightarrow> False | Some t \<Rightarrow> t \<noteq> [])"

definition segment_lines :: "url_ctor \<Rightarrow> string option \<Rightarrow> vsegment \<Rightarrow> error + string list" where
  "segment_lines href u sg =
     (let tag = (if discontinuity sg then [''#EXT-X-DISCONTINUITY''] else []) @
                [''#EXTINF:'' @ vs_duration sg @ '','']
      in if truthy u
         then (case href (vs_file sg) (the u) of
                 None \<Rightarrow> Inl TypeError
               | Some f \<Rightarrow> Inr (tag @ [f]))
         else Inr (tag @ [vs_file sg]))"

fun all_lines :: "url_ctor \<Rightarrow> string option \<Rightarrow> vsegment list \<Rightarrow> error + string list" where
  "all_lines href u [] = Inr []"
| "all_lines href u (sg # sgs) =
     (case segment_lines href u sg of
        Inl e \<Rightarrow> Inl e
      | Inr ls \<Rightarrow> (case all_lines href u sgs of Inl e \<Rightarrow> Inl e | Inr ms \<Rightarrow> Inr (ls @ ms)))"

definition m3u8_text :: "url_ctor \<Rightarrow> string option \<Rightarrow> playlist \<Rightarrow> error + string" where
  "m3u8_text href u pl =
     (case all_lines href u (segments pl) of
        Inl e \<Rightarrow> Inl e
      | Inr ls \<Rightarrow>
          Inr (join [LF]
                ([''#EXTM3U'', ''#EXT-X-VERSION:3'', ''#EXT-X-ALLOW-CACHE:YES'',
                  ''#EXT-X-TARGETDURATION:'' @ show_number (pl_duration pl),
                  ''#EXT-X-MEDIA-SEQUENCE:'' @ show_nat (pl_sequence pl)] @ ls)))"

text \<open>
  \<^verbatim>\<open>writeMasterList(fileDir, url, list)\<close>: the exception of a \<^verbatim>\<open>new URL\<close> leaves the file
  as it was; otherwise the file is overwritten with the joined lines.
\<close>

definition writeMasterList ::
  "url_ctor \<Rightarrow> string \<Rightarrow> string option \<Rightarrow> playlist \<Rightarrow> filesystem \<Rightarrow> (error + unit) \<times> filesystem" where
  "writeMasterList href fileDir u pl fs =
     (case m3u8_text href u pl of
        Inl e \<Rightarrow> (Inl e, fs)
      | Inr t \<Rightarrow> (Inr (), fs(fileDir \<mapsto> t)))"

section \<open>The rendition table and the class Emission\<close>

record rendition =
  width :: nat
  height :: nat
  audiorate :: nat
  bitrate :: nat
  maxrate :: nat
  bufsize :: nat

definition RENDITIONS :: "rendition list" where
  "RENDITIONS =
     [\<lparr>width = 640, height = 360, audiorate = 96, bitrate = 800, maxrate = 856, bufsize = 1200\<rparr>,
      \<lparr>width = 842, height = 480, audiorate = 128, bitrate = 1400, maxrate = 1498, bufsize = 2100\<rparr>,
      \<lparr>width = 1280, height = 720, audiorate = 128, bitrate = 2800, maxrate = 2996, bufsize = 4200\<rparr>,
      \<lparr>width = 1920, height = 1080, audiorate = 192, bitrate = 5000, maxrate = 5350, bufsize = 7500\<rparr>]"

text \<open>
  The loop \<^verbatim>\<open>for (i...) if (Math.pow(2, i) & resolutionMask)\<close> over the table: the
  renditions it selects, in index order. The mask is a whole Number.
\<close>

definition enabled :: "int \<Rightarrow> rendition list" where
  "enabled resolutionMask =
     map snd (filter (\<lambda>(i, r). and (2 ^ i) resolutionMask \<noteq> 0) (enumerate 0 RENDITIONS))"

text \<open>
  \<^verbatim>\<open>path.join(dir, name)\<close> on a POSIX system: the arguments that are not empty are joined
  by a slash and the result is normalized. The normalization drops the empty segments and
  the segments \<^verbatim>\<open>.\<close>, lets a segment \<^verbatim>\<open>..\<close> take back the segment before it (or keeps it,
  in a relative path that has none to take back), and keeps a trailing slash.
\<close>

fun split_slash :: "string \<Rightarrow> string \<Rightarrow> string list" where
  "split_slash acc [] = [rev acc]"
| "split_slash acc (c # cs) =
     (if c = CHR ''/'' then rev acc # split_slash [] cs else split_slash (c # acc) cs)"

fun normalize_segments :: "bool \<Rightarrow> string list \<Rightarrow> string list \<Rightarrow> string list" where
  "normalize_segments beyond res [] = rev res"
| "normalize_segments beyond res (sg # sgs) =
     (if sg = [] \<or> sg = ''.'' then normalize_segments beyond res sgs
      else if sg = ''..''
      then (if res \<noteq> [] \<and> hd res \<noteq> ''..'' then normalize_segments beyond (tl res) sgs
            else if beyond then normalize_segments beyond (''..'' # res) sgs
            else normalize_segments beyond res sgs)
      else normalize_segments beyond (sg # res) sgs)"

definition path_normalize :: "string \<Rightarrow> string" where
  "path_normalize p =
     (if p = [] then ''.''
      else (let isAbsolute = (hd p = CHR ''/'');
                trailingSeparator = (last p = CHR ''/'');
                body = join ''/'' (normalize_segments (\<not> isAbsolute) [] (split_slash [] p))
            in if body = []
               then (if isAbsolute then ''/'' else if trailingSeparator then ''./'' else ''.'')
               else (if isAbsolute then ''/'' else []) @ body
                      @ (if trailingSeparator then ''/'' else [])))"

definition path_join :: "string \<Rightarrow> string \<Rightarrow> string" where
  "path_join d name =
     (if d = [] \<and> name = [] then ''.''
      else path_normalize (if d = [] then name else if name = [] then d else d @ ''/'' @ name))"

datatype process = Running | Killed

datatype promise = Pending | Resolved | Rejected string

text \<open>A promise is settled once; later calls of \<^verbatim>\<open>resolve\<close> and \<^verbatim>\<open>reject\<close> change nothing.\<close>

definition settle :: "promise \<Rightarrow> promise \<Rightarrow> promise" where
  "settle p q = (if p = Pending then q else p)"

text \<open>
  The fields of an Emission. \<open>em_list\<close> is \<^verbatim>\<open>_list\<close>: the buffer of snapshots of each
  enabled rendition under the key \<^verbatim>\<open>`${height}p`\<close>, in the order \<^verbatim>\<open>for (res in _list)\<close>
  visits. \<open>em_process\<close> is \<^verbatim>\<open>_process\<close>, \<open>Killed\<close> once \<^verbatim>\<open>kill()\<close> was called on it.
  \<open>em_promise\<close> is the promise \<^verbatim>\<open>start()\<close> returned.
\<close>

record emission =
  em_dir :: string
  em_input :: string
  em_segmentTime :: nat
  em_listSize :: int
  em_timestamp :: string
  em_params :: "string list"
  em_list :: "(string \<times> snapshot list) list"
  em_process :: "process option"
  em_promise :: promise

definition getRendition :: "string \<Rightarrow> string \<Rightarrow> nat \<Rightarrow> rendition \<Rightarrow> string list" where
  "getRendition d ts segTime r =
     (let sgm = path_join d (show_nat (height r) @ ''p_%04d.ts'');
          lst = path_join d (ts @ ''_'' @ show_nat (height r) @ ''p.m3u8'')
      in [''-vf'', ''scale=w='' @ show_nat (width r) @ '':h='' @ show_nat (height r)
                    @ '':force_original_aspect_ratio=decrease'',
          ''-c:a'', ''aac'',
          ''-ar'', ''48000'',
          ''-b:a'', show_nat (audiorate r) @ ''k'',
          ''-c:v'', ''h264'',
          ''-profile:v'', ''main'',
          ''-crf'', ''20'',
          ''-g'', ''48'',
          ''-keyint_min'', ''48'',
          ''-sc_threshold'', ''0'',
          ''-b:v'', show_nat (bitrate r) @ ''k'',
          ''-maxrate'', show_nat (maxrate r) @ ''k'',
          ''-bufsize'', show_nat (bufsize r) @ ''k'',
          ''-hls_time'', show_nat segTime,
          ''-hls_list_size'', ''1'',
          ''-hls_wrap'', ''40'',
          ''-start_number'', ''0'',
          ''-preset'', ''superfast'',
          ''-hls_segment_filename'', sgm,
          lst])"

definition getRenditions :: "string \<Rightarrow> string \<Rightarrow> nat \<Rightarrow> int \<Rightarrow> string list" where
  "getRenditions d ts segTime resolutionMask =
     concat (map (getRendition d ts segTime) (enabled resolutionMask))"

text \<open>
  The constructor; \<open>now\<close> is the reading of \<^verbatim>\<open>Date.now()\<close>. The callback \<^verbatim>\<open>onWrite\<close> is
  the one closure \<^verbatim>\<open>FileStreaming.emit\<close> builds, \<open>onWrite\<close> below, so it is not stored.
\<close>

definition Emission :: "string \<Rightarrow> string \<Rightarrow> nat \<Rightarrow> int \<Rightarrow> int \<Rightarrow> nat \<Rightarrow> emission" where
  "Emission d input segTime lsize resolutionMask now =
     \<lparr>em_dir = d, em_input = input, em_segmentTime = segTime, em_listSize = lsize,
      em_timestamp = show_nat now,
      em_params = [''-re'', ''-i'', input] @ getRenditions d (show_nat now) segTime resolutionMask,
      em_list = map (\<lambda>r. (show_nat (height r) @ ''p'', [])) (enabled resolutionMask),
      em_process = None,
      em_promise = Pending\<rparr>"

text \<open>
  \<^verbatim>\<open>X.list\<close> for an Emission \<^verbatim>\<open>X\<close>. The constructor sets the fields \<^verbatim>\<open>_dir\<close>,
  \<^verbatim>\<open>_input\<close>, \<^verbatim>\<open>_segmentTime\<close>, \<^verbatim>\<open>_listSize\<close>, \<^verbatim>\<open>_timestamp\<close>, \<^verbatim>\<open>_params\<close>,
  \<^verbatim>\<open>_onWrite\<close> and \<^verbatim>\<open>_list\<close>, \<^verbatim>\<open>start\<close> sets \<^verbatim>\<open>_process\<close>, and the class body declares
  the accessors \<^verbatim>\<open>dir\<close>, \<^verbatim>\<open>input\<close>, \<^verbatim>\<open>segmentTime\<close>, \<^verbatim>\<open>listSize\<close>, \<^verbatim>\<open>timestamp\<close> and
  \<^verbatim>\<open>isEmpty\<close> and the methods \<^verbatim>\<open>getRendition\<close>, \<^verbatim>\<open>getRenditions\<close>, \<^verbatim>\<open>start\<close>,
  \<^verbatim>\<open>stop\<close>, \<^verbatim>\<open>dispose\<close> and \<^verbatim>\<open>disposeAll\<close>. \<open>buffer_tables\<close> lists the members whose
  value is the table of buffers, by name: the field \<^verbatim>\<open>_list\<close> alone. No member is named
  \<^verbatim>\<open>list\<close>, so the read gives \<^verbatim>\<open>undefined\<close>, here \<open>None\<close>.
\<close>

definition buffer_tables :: "emission \<Rightarrow> (string \<times> (string \<times> snapshot list) list) list" where
  "buffer_tables e = [(''_list'', em_list e)]"

definition Emission_list :: "emission \<Rightarrow> (string \<times> snapshot list) list option" where
  "Emission_list e = map_of (buffer_tables e) ''list''"

definition set_buffer :: "string \<Rightarrow> snapshot list \<Rightarrow> (string \<times> snapshot list) list \<Rightarrow> (string \<times> snapshot list) list" where
  "set_buffer res buf kvs = map (\<lambda>(k, v). if k = res then (k, buf) else (k, v)) kvs"

definition isEmpty :: "emission \<Rightarrow> bool" where
  "isEmpty e = list_all (\<lambda>(res, buf). \<not> (length buf > 0)) (em_list e)"

definition listDir_of :: "emission \<Rightarrow> string \<Rightarrow> string" where
  "listDir_of e res = path_join (em_dir e) (em_timestamp e @ ''_'' @ res @ ''.m3u8'')"

definition knownErrors :: "string list" where
  "knownErrors =
     [''Invalid argument'',
      ''No such file or directory'',
      ''Invalid data found when processing input'',
      ''No streams to mux were specified'']"

text \<open>\<^verbatim>\<open>text.split('\r\n')\<close>.\<close>

fun split_go :: "string \<Rightarrow> string \<Rightarrow> string list" where
  "split_go acc [] = [rev acc]"
| "split_go acc [c] = [rev (c # acc)]"
| "split_go acc (c # d # cs) =
     (if c = CR \<and> d = LF then rev acc # split_go [] cs else split_go (c # acc) (d # cs))"

definition split_crlf :: "string \<Rightarrow> string list" where
  "split_crlf t = split_go [] t"

text \<open>
  The listener of \<^verbatim>\<open>stderr\<close> that \<^verbatim>\<open>start()\<close> installs: \<^verbatim>\<open>output.includes(error)\<close> asks
  whether an element of the array \<^verbatim>\<open>output\<close> equals the phrase.
\<close>

definition on_stderr :: "string \<Rightarrow> emission \<Rightarrow> emission" where
  "on_stderr data e =
     (let output = split_crlf data in
      case find (\<lambda>error. error \<in> set output) knownErrors of
        Some error \<Rightarrow> e\<lparr>em_promise := settle (em_promise e) (Rejected error)\<rparr>
      | None \<Rightarrow> e)"

definition on_error :: "string \<Rightarrow> emission \<Rightarrow> emission" where
  "on_error err e = e\<lparr>em_promise := settle (em_promise e) (Rejected err)\<rparr>"

definition on_close :: "emission \<Rightarrow> emission" where
  "on_close e = e\<lparr>em_promise := settle (em_promise e) Resolved\<rparr>"

section \<open>The class FileStreaming\<close>

text \<open>
  The state of one session and of what it shares with its Emissions. An Emission is an
  object on the heap and \<^verbatim>\<open>_current\<close>, \<^verbatim>\<open>_last\<close> and the callback's argument refer to it
  by address, so that \<^verbatim>\<open>===\<close> is equality of addresses and a \<^verbatim>\<open>dispose\<close> through one
  reference is seen through the others. \<open>None\<close> is \<^verbatim>\<open>undefined\<close>. \<open>watchers\<close> are the
  listeners registered with \<^verbatim>\<open>fs.watchFile\<close>: the path, the Emission and the rendition key
  of the closure. \<open>URL\<close> is the runtime's constructor and \<open>ToNumber\<close> its coercion of a text
  to a Number.
\<close>

record session =
  dir :: string
  url :: "string option"
  resolutionMask :: int
  segmentTime :: nat
  listSize :: int
  current_ref :: "nat option"
  last_ref :: "nat option"
  heap :: "emission list"
  files :: filesystem
  watchers :: "(string \<times> nat \<times> string) list"
  URL :: url_ctor
  ToNumber :: coercion

definition update_emission :: "nat \<Rightarrow> (emission \<Rightarrow> emission) \<Rightarrow> session \<Rightarrow> session" where
  "update_emission a f s = s\<lparr>heap := (heap s)[a := f (heap s ! a)]\<rparr>"

text \<open>\<^verbatim>\<open>Emission.start\<close>: the text is the reason of the rejection.\<close>

definition Emission_start :: "nat \<Rightarrow> session \<Rightarrow> (string + unit) \<times> session" where
  "Emission_start a s =
     (let e = heap s ! a in
      if em_process e \<noteq> None then (Inl ''Already in transition'', s)
      else (Inr (),
            (update_emission a (\<lambda>e. e\<lparr>em_process := Some Running\<rparr>) s)
              \<lparr>watchers := watchers s @ map (\<lambda>(res, buf). (listDir_of e res, a, res)) (em_list e)\<rparr>))"

text \<open>\<^verbatim>\<open>Emission.stop\<close>.\<close>

definition Emission_stop :: "nat \<Rightarrow> session \<Rightarrow> session" where
  "Emission_stop a s =
     (if em_process (heap s ! a) \<noteq> None
      then update_emission a (\<lambda>e. e\<lparr>em_process := Some Killed\<rparr>) s
      else s)"

text \<open>
  \<^verbatim>\<open>Emission.dispose(res)\<close>: \<^verbatim>\<open>splice(0, 1)\<close> takes the head of the buffer, its segment
  file is unlinked, and when the buffer is empty after that the listener and the engine's
  playlist of this rendition are removed.
\<close>

definition dispose :: "nat \<Rightarrow> string \<Rightarrow> session \<Rightarrow> (error + bool) \<times> session" where
  "dispose a res s =
     (let e = heap s ! a in
      case map_of (em_list e) res of
        None \<Rightarrow> (Inl TypeError, s)
      | Some [] \<Rightarrow> (Inr False, s)
      | Some (item # rest) \<Rightarrow>
          (let segDir = path_join (em_dir e) (seg_file (segment item));
               s1 = (update_emission a (\<lambda>e. e\<lparr>em_list := set_buffer res rest (em_list e)\<rparr>) s)
                      \<lparr>files := (files s)(segDir := None)\<rparr>
           in if length rest < 1
              then (Inr True,
                    s1\<lparr>watchers := filter (\<lambda>(p, w). p \<noteq> listDir_of e res) (watchers s1),
                       files := (files s1)(listDir_of e res := None)\<rparr>)
              else (Inr False, s1)))"

text \<open>\<^verbatim>\<open>Emission.disposeAll\<close>; the buffers themselves are left as they are.\<close>

definition disposeAll :: "nat \<Rightarrow> session \<Rightarrow> session" where
  "disposeAll a s =
     (let e = heap s ! a in
      foldl (\<lambda>s (res, buf).
               s\<lparr>files := (\<lambda>p. if p \<in> set (map (\<lambda>item. path_join (em_dir e) (seg_file (segment item))) buf)
                                   \<or> p = listDir_of e res
                                then None else files s p),
                 watchers := filter (\<lambda>(p, w). p \<noteq> listDir_of e res) (watchers s)\<rparr>)
            s (em_list e))"

subsection \<open>The callback of emit\<close>

text \<open>
  An element of the array \<^verbatim>\<open>list\<close> the callback builds:
  \<^verbatim>\<open>{emission, duration, sequence, segment}\<close>. Its \<^verbatim>\<open>duration\<close> is the snapshot's, that is the
  engine playlist's target duration; the duration of the segment is inside \<^verbatim>\<open>segment\<close>.
\<close>

record item =
  emission :: nat
  it_duration :: string
  it_sequence :: nat
  it_segment :: vsegment

text \<open>JavaScript's \<^verbatim>\<open>a > b\<close> on texts: by code unit, a proper prefix being smaller.\<close>

fun string_gt :: "string \<Rightarrow> string \<Rightarrow> bool" where
  "string_gt [] ys = False"
| "string_gt (x # xs) [] = True"
| "string_gt (x # xs) (y # ys) =
     (if x = y then string_gt xs ys else (of_char y :: nat) < of_char x)"

text \<open>The first statement of the callback: the promotion of the Emission that wrote.\<close>

definition promote :: "nat \<Rightarrow> session \<Rightarrow> session" where
  "promote e s =
     (case current_ref s of
        None \<Rightarrow> s\<lparr>current_ref := Some e\<rparr>
      | Some c \<Rightarrow>
          if e \<noteq> c \<and> string_gt (em_timestamp (heap s ! e)) (em_timestamp (heap s ! c))
          then Emission_stop c (s\<lparr>last_ref := Some c, current_ref := Some e\<rparr>)
          else s)"

text \<open>
  One of the two \<^verbatim>\<open>for (let li of X.list[r])\<close> loops: the elements pushed for the Emission
  at address \<open>a\<close>. Reading \<^verbatim>\<open>[r]\<close> of \<^verbatim>\<open>undefined\<close> throws a TypeError; so does iterating
  the \<^verbatim>\<open>undefined\<close> that a table gives for a key it does not have.
\<close>

definition items_of :: "nat \<Rightarrow> string \<Rightarrow> session \<Rightarrow> error + item list" where
  "items_of a r s =
     (case Emission_list (heap s ! a) of
        None \<Rightarrow> Inl TypeError
      | Some table \<Rightarrow>
          (case map_of table r of
             None \<Rightarrow> Inl TypeError
           | Some buf \<Rightarrow>
               Inr (map (\<lambda>li. \<lparr>emission = a, it_duration = duration li, it_sequence = sequence li,
                               it_segment = \<lparr>vs_duration = seg_duration (segment li),
                                             vs_file = seg_file (segment li),
                                             discontinuity = False\<rparr>\<rparr>) buf)))"

definition merged :: "string \<Rightarrow> session \<Rightarrow> error + item list" where
  "merged r s =
     (case (case last_ref s of None \<Rightarrow> Inr [] | Some l \<Rightarrow> items_of l r s) of
        Inl err \<Rightarrow> Inl err
      | Inr xs \<Rightarrow>
          (case current_ref s of
             None \<Rightarrow> Inl TypeError
           | Some c \<Rightarrow> (case items_of c r s of Inl err \<Rightarrow> Inl err | Inr ys \<Rightarrow> Inr (xs @ ys))))"

text \<open>The loop over \<^verbatim>\<open>markToDispose\<close>.\<close>

definition release :: "nat \<Rightarrow> session \<Rightarrow> session" where
  "release a s =
     (let s1 = (if Some a = last_ref s then s\<lparr>last_ref := None\<rparr> else s)
      in if Some a = current_ref s1 then s1\<lparr>current_ref := None\<rparr> else s1)"

fun dispose_marked :: "string \<Rightarrow> item list \<Rightarrow> session \<Rightarrow> (error + unit) \<times> session" where
  "dispose_marked r [] s = (Inr (), s)"
| "dispose_marked r (it # its) s =
     (case dispose (emission it) r s of
        (Inl err, s1) \<Rightarrow> (Inl err, s1)
      | (Inr b, s1) \<Rightarrow>
          dispose_marked r its
            (if b \<and> isEmpty (heap s1 ! emission it) then release (emission it) s1 else s1))"

text \<open>\<^verbatim>\<open>const dif = list.length - this.listSize; if (dif > 0) {...}\<close>: the state after the
  disposals and the array that \<^verbatim>\<open>splice(0, dif)\<close> leaves.\<close>

definition trim :: "string \<Rightarrow> item list \<Rightarrow> session \<Rightarrow> (error + item list) \<times> session" where
  "trim r list s =
     (let dif = int (length list) - listSize s in
      if dif > 0
      then (case dispose_marked r (take (nat dif) list) s of
              (Inl err, s1) \<Rightarrow> (Inl err, s1)
            | (Inr u, s1) \<Rightarrow> (Inr (drop (nat dif) list), s1))
      else (Inr list, s))"

text \<open>\<^verbatim>\<open>first = list.find(P); first.segment.discontinuity = true\<close>; \<open>None\<close> where \<^verbatim>\<open>find\<close>
  gives \<^verbatim>\<open>undefined\<close> and the assignment throws.\<close>

fun flag_first :: "(item \<Rightarrow> bool) \<Rightarrow> item list \<Rightarrow> item list option" where
  "flag_first P [] = None"
| "flag_first P (x # xs) =
     (if P x then Some (x\<lparr>it_segment := (it_segment x)\<lparr>discontinuity := True\<rparr>\<rparr> # xs)
      else map_option ((#) x) (flag_first P xs))"

definition tag_discontinuity :: "session \<Rightarrow> item list \<Rightarrow> error + item list" where
  "tag_discontinuity s list =
     (if find (\<lambda>l. Some (emission l) = last_ref s) list \<noteq> None
      then (case flag_first (\<lambda>l. Some (emission l) = current_ref s) list of
              None \<Rightarrow> Inl TypeError
            | Some list' \<Rightarrow> Inr list')
      else Inr list)"

text \<open>
  The object literal assigned to \<^verbatim>\<open>list\<close>; \<^verbatim>\<open>list[0].sequence\<close> throws on the empty array.
  \<open>num\<close> is the runtime's coercion of the texts \<^verbatim>\<open>o.duration\<close> that \<^verbatim>\<open>Math.max\<close> receives.
\<close>

definition list_object :: "coercion \<Rightarrow> item list \<Rightarrow> error + playlist" where
  "list_object num list =
     (case list of
        [] \<Rightarrow> Inl TypeError
      | x # xs \<Rightarrow>
          Inr \<lparr>pl_duration = Math_max (map (\<lambda>l. num (it_duration l)) list @ [Some 0]),
               pl_sequence = it_sequence x,
               segments = map it_segment list\<rparr>)"

text \<open>
  The callback \<^verbatim>\<open>(e, r) => {...}\<close>. Its result is the exception that ended it or, when
  the playlist of the rendition was written, the array \<^verbatim>\<open>list\<close> as it was before the
  object literal together with the object passed to \<^verbatim>\<open>writeMasterList\<close>. What it had
  changed before an exception stays changed.
\<close>

definition onWrite :: "nat \<Rightarrow> string \<Rightarrow> session \<Rightarrow> (error + item list \<times> playlist) \<times> session" where
  "onWrite e r s0 =
     (let s = promote e s0 in
      case merged r s of
        Inl err \<Rightarrow> (Inl err, s)
      | Inr list \<Rightarrow>
          (case trim r list s of
             (Inl err, s1) \<Rightarrow> (Inl err, s1)
           | (Inr list1, s1) \<Rightarrow>
               (case tag_discontinuity s1 list1 of
                  Inl err \<Rightarrow> (Inl err, s1)
                | Inr list2 \<Rightarrow>
                    (case list_object (ToNumber s1) list2 of
                       Inl err \<Rightarrow> (Inl err, s1)
                     | Inr pl \<Rightarrow>
                         (case writeMasterList (URL s1) (path_join (dir s1) (r @ ''.m3u8''))
                                 (url s1) pl (files s1) of
                            (Inl err, fs) \<Rightarrow> (Inl err, s1)
                          | (Inr u, fs) \<Rightarrow> (Inr (list2, pl), s1\<lparr>files := fs\<rparr>))))))"

text \<open>
  The listener \<^verbatim>\<open>start()\<close> registers with \<^verbatim>\<open>fs.watchFile\<close> for the rendition \<open>res\<close> of the
  Emission at \<open>a\<close>: \<open>push_snapshot\<close> is \<^verbatim>\<open>this._list[res].push(list)\<close>.
\<close>

definition buffer :: "session \<Rightarrow> nat \<Rightarrow> string \<Rightarrow> snapshot list option" where
  "buffer s a res = map_of (em_list (heap s ! a)) res"

definition push_snapshot :: "nat \<Rightarrow> string \<Rightarrow> snapshot \<Rightarrow> session \<Rightarrow> session" where
  "push_snapshot a res list s =
     update_emission a
       (\<lambda>e. e\<lparr>em_list := set_buffer res (the (map_of (em_list e) res) @ [list]) (em_list e)\<rparr>) s"

definition watch_listener :: "nat \<Rightarrow> string \<Rightarrow> session \<Rightarrow> (error + unit) \<times> session" where
  "watch_listener a res s =
     (let listDir = listDir_of (heap s ! a) res in
      if files s listDir \<noteq> None
      then (case readList (files s) listDir of
              Inl err \<Rightarrow> (Inl err, s)
            | Inr list \<Rightarrow>
                (case buffer s a res of
                   None \<Rightarrow> (Inl TypeError, s)
                 | Some buf \<Rightarrow>
                     (case onWrite a res (push_snapshot a res list s) of
                        (Inl err, s1) \<Rightarrow> (Inl err, s1)
                      | (Inr w, s1) \<Rightarrow> (Inr (), s1))))
      else (Inr (), s))"

subsection \<open>The methods of the session\<close>

text \<open>
  \<^verbatim>\<open>emit(input)\<close>, called when \<^verbatim>\<open>Date.now()\<close> reads \<open>now\<close>. The result is the reason of an
  immediate rejection, or the address of the new Emission, whose promise the returned
  promise follows.
\<close>

definition emit :: "string \<Rightarrow> nat \<Rightarrow> session \<Rightarrow> (string + nat) \<times> session" where
  "emit input now s =
     (if last_ref s \<noteq> None then (Inl ''Transition in progress'', s)
      else (let a = length (heap s);
                s1 = s\<lparr>heap := heap s @
                          [Emission (dir s) input (segmentTime s) (listSize s) (resolutionMask s) now]\<rparr>
            in case Emission_start a s1 of
                 (Inl reason, s2) \<Rightarrow> (Inl reason, s2)
               | (Inr u, s2) \<Rightarrow> (Inr a, s2)))"

definition stop :: "session \<Rightarrow> session" where
  "stop s =
     (let s1 = (case last_ref s of None \<Rightarrow> s | Some l \<Rightarrow> disposeAll l (Emission_stop l s))
      in case current_ref s1 of None \<Rightarrow> s1 | Some c \<Rightarrow> disposeAll c (Emission_stop c s1))"

text \<open>
  The constructor, on the file system \<open>fs\<close> and with the runtime's \<open>href\<close> and \<open>num\<close>;
  \<open>None\<close> for an argument left out. It empties the directory and writes the master
  playlist. The paths inside the directory are those that begin as \<^verbatim>\<open>path.join(dir, name)\<close>
  does for a plain name.
\<close>

definition inside :: "string \<Rightarrow> string \<Rightarrow> bool" where
  "inside d p = (strip_prefix (butlast (path_join d ''x'')) p \<noteq> None)"

definition master_lines :: "url_ctor \<Rightarrow> string option \<Rightarrow> rendition \<Rightarrow> error + string list" where
  "master_lines href u r =
     (let inf = ''#EXT-X-STREAM-INF:BANDWIDTH='' @ show_nat (bitrate r * 1000) @ '',RESOLUTION=''
                  @ show_nat (width r) @ ''x'' @ show_nat (height r);
          f = show_nat (height r) @ ''p.m3u8''
      in if truthy u
         then (case href f (the u) of None \<Rightarrow> Inl TypeError | Some h \<Rightarrow> Inr [inf, h])
         else Inr [inf, f])"

fun master_all :: "url_ctor \<Rightarrow> string option \<Rightarrow> rendition list \<Rightarrow> error + string list" where
  "master_all href u [] = Inr []"
| "master_all href u (r # rs) =
     (case master_lines href u r of
        Inl e \<Rightarrow> Inl e
      | Inr ls \<Rightarrow> (case master_all href u rs of Inl e \<Rightarrow> Inl e | Inr ms \<Rightarrow> Inr (ls @ ms)))"

definition FileStreaming ::
  "url_ctor \<Rightarrow> coercion \<Rightarrow> filesystem \<Rightarrow> string \<Rightarrow> string option \<Rightarrow> int option \<Rightarrow> nat option
     \<Rightarrow> int option \<Rightarrow> error + session" where
  "FileStreaming href num fs d u rmask segTime lsize =
     (let resolutionMask = (case rmask of None \<Rightarrow> 4 | Some m \<Rightarrow> m);
          fs1 = (\<lambda>p. if inside d p then None else fs p)
      in case master_all href u (enabled resolutionMask) of
           Inl e \<Rightarrow> Inl e
         | Inr ls \<Rightarrow>
             Inr \<lparr>dir = d, url = u, resolutionMask = resolutionMask,
                  segmentTime = (case segTime of None \<Rightarrow> 5 | Some t \<Rightarrow> t),
                  listSize = (case lsize of None \<Rightarrow> 5 | Some n \<Rightarrow> n),
                  current_ref = None, last_ref = None, heap = [],
                  files = fs1(path_join d ''master.m3u8'' \<mapsto>
                              join [LF] ([''#EXTM3U'', ''#EXT-X-VERSION:3''] @ ls)),
                  watchers = [], URL = href, ToNumber = num\<rparr>)"

text \<open>
  The accessor \<^verbatim>\<open>renditions\<close> evaluates \<^verbatim>\<open>LiveStreaming.getResolutions(this.resolutionMask)\<close>.
  \<open>module_scope\<close> lists the bindings an identifier in the class body can resolve to, each
  with the names of its own properties that are functions: the bindings of the module and
  the class's own name. A name that resolves to nothing throws a ReferenceError, a call of
  a property that is not a function a TypeError; a resolved call would give the enabled
  renditions.
\<close>

definition module_scope :: "(string \<times> string list) list" where
  "module_scope =
     [(''fs'', [''readFileSync'', ''writeFileSync'', ''existsSync'', ''unlinkSync'', ''watchFile'',
                ''unwatchFile'', ''rmdirSync'', ''mkdirSync'']),
      (''path'', [''join'']),
      (''spawn'', []),
      (''ffmpeg'', []),
      (''RENDITIONS'', []),
      (''readList'', []),
      (''writeMasterList'', []),
      (''Emission'', []),
      (''FileStreaming'', [])]"

definition renditions :: "session \<Rightarrow> error + rendition list" where
  "renditions s =
     (case map_of module_scope ''LiveStreaming'' of
        None \<Rightarrow> Inl ReferenceError
      | Some fns \<Rightarrow>
          if ''getResolutions'' \<in> set fns then Inr (enabled (resolutionMask s)) else Inl TypeError)"

subsection \<open>Events\<close>

text \<open>
  What happens to a session, one event at a time on the single thread: a call of
  \<^verbatim>\<open>emit\<close> or \<^verbatim>\<open>stop\<close>, a registered file listener firing, a chunk on the \<^verbatim>\<open>stderr\<close> of an
  Emission's process, its \<^verbatim>\<open>error\<close> or \<^verbatim>\<open>close\<close> event, and a file written from outside (by
  a transcoding process). A listener that is not registered does not fire. An exception in
  a listener leaves the state as the listener had changed it so far.
\<close>

datatype event =
    Emit string nat
  | Stop
  | Watch nat string
  | StderrData nat string
  | ProcessError nat string
  | ProcessClose nat
  | FsWrite string string

fun step :: "session \<Rightarrow> event \<Rightarrow> session" where
  "step s (Emit input now) = snd (emit input now s)"
| "step s Stop = stop s"
| "step s (Watch a res) =
     (if a < length (heap s) \<and> (listDir_of (heap s ! a) res, a, res) \<in> set (watchers s)
      then snd (watch_listener a res s) else s)"
| "step s (StderrData a data) =
     (if a < length (heap s) then update_emission a (on_stderr data) s else s)"
| "step s (ProcessError a err) =
     (if a < length (heap s) then update_emission a (on_error err) s else s)"
| "step s (ProcessClose a) =
     (if a < length (heap s) then update_emission a on_close s else s)"
| "step s (FsWrite p t) = s\<lparr>files := (files s)(p \<mapsto> t)\<rparr>"

definition run :: "session \<Rightarrow> event list \<Rightarrow> session" where
  "run s evs = foldl step s evs"

subsection \<open>Notions used to state the properties\<close>

text \<open>The element the callback pushes for a snapshot of the Emission at \<open>a\<close>.\<close>

definition item_of :: "nat \<Rightarrow> snapshot \<Rightarrow> item" where
  "item_of a li =
     \<lparr>emission = a, it_duration = duration li, it_sequence = sequence li,
      it_segment = \<lparr>vs_duration = seg_duration (segment li), vs_file = seg_file (segment li),
                    discontinuity = False\<rparr>\<rparr>"

text \<open>
  The line \<^verbatim>\<open>writeMasterList\<close> writes for the file of a segment, and the text it writes
  for the whole segment, each line with the separator that \<^verbatim>\<open>join\<close> puts before it.
\<close>

definition file_line :: "url_ctor \<Rightarrow> string option \<Rightarrow> vsegment \<Rightarrow> string option" where
  "file_line href u sg = (if truthy u then href (vs_file sg) (the u) else Some (vs_file sg))"

definition entry_text :: "url_ctor \<Rightarrow> string option \<Rightarrow> vsegment \<Rightarrow> string" where
  "entry_text href u sg =
     (if discontinuity sg then LF # ''#EXT-X-DISCONTINUITY'' else [])
     @ LF # ''#EXTINF:'' @ (vs_duration sg @ '','') @ LF # the (file_line href u sg)"

text \<open>
  Texts as \<^verbatim>\<open>readList\<close> captures them: a duration is not empty and has no comma and no
  line feed, a file line is not empty and has no line feed. \<open>plain\<close> texts have neither a
  line feed nor a \<^verbatim>\<open>#\<close>. A text is at a line's end when nothing or a line feed follows.
\<close>

definition duration_ok :: "string \<Rightarrow> bool" where
  "duration_ok d = (d \<noteq> [] \<and> LF \<notin> set d \<and> CHR '','' \<notin> set d)"

definition line_ok :: "string \<Rightarrow> bool" where
  "line_ok f = (f \<noteq> [] \<and> LF \<notin> set f)"

definition entry_ok :: "url_ctor \<Rightarrow> string option \<Rightarrow> vsegment \<Rightarrow> bool" where
  "entry_ok href u sg = (duration_ok (vs_duration sg) \<and> line_ok (the (file_line href u sg)))"

definition plain :: "string \<Rightarrow> bool" where
  "plain t = (LF \<notin> set t \<and> CHR ''#'' \<notin> set t)"

definition at_line_end :: "string \<Rightarrow> bool" where
  "at_line_end rest = (rest = [] \<or> hd rest = LF)"

text \<open>
  A snapshot whose segment is as \<^verbatim>\<open>readList\<close> captures it.
\<close>

definition snapshot_ok :: "snapshot \<Rightarrow> bool" where
  "snapshot_ok li = (duration_ok (seg_duration (segment li)) \<and> line_ok (seg_file (segment li)))"

subsection \<open>Roles and example sessions\<close>

text \<open>The Emission in the draining role is the one \<^verbatim>\<open>_last\<close> refers to.\<close>

definition draining :: "session \<Rightarrow> nat \<Rightarrow> bool" where
  "draining s a = (last_ref s = Some a)"

text \<open>
  A playlist as the engine writes it with \<^verbatim>\<open>-hls_list_size 1\<close>: the target duration, the
  media sequence, and one entry. \<open>example_snapshot\<close> is what \<^verbatim>\<open>readList\<close> makes of it
  for a target duration of 5 and a segment of 4 seconds.
\<close>

definition engine_list :: "string \<Rightarrow> string \<Rightarrow> string \<Rightarrow> string \<Rightarrow> string" where
  "engine_list td q d f =
     ''#EXTM3U'' @ [LF] @ ''#EXT-X-VERSION:3'' @ [LF] @ ''#EXT-X-TARGETDURATION:'' @ td @ [LF]
       @ ''#EXT-X-MEDIA-SEQUENCE:'' @ q @ [LF] @ ''#EXTINF:'' @ d @ '','' @ [LF] @ f @ [LF]"

definition example_snapshot :: "nat \<Rightarrow> string \<Rightarrow> snapshot" where
  "example_snapshot q f =
     \<lparr>duration = ''5'', sequence = q, segment = \<lparr>seg_duration = ''4.000000'', seg_file = f\<rparr>\<rparr>"

text \<open>
  \<^verbatim>\<open>new FileStreaming('out', undefined, mask, 5, n)\<close> on an empty disk, by a runtime whose
  \<^verbatim>\<open>URL\<close> is never called since no url is given, and whose coercion is never called since
  no callback reaches \<^verbatim>\<open>Math.max\<close>.
\<close>

definition new_session :: "int \<Rightarrow> int \<Rightarrow> session" where
  "new_session m n =
     (case FileStreaming (\<lambda>f u. None) (\<lambda>t. None) Map.empty ''out'' None (Some m) (Some 5) (Some n) of
        Inr s \<Rightarrow> s)"

text \<open>
  Scenario B of the spec at the 720p rendition with a window of 3: the first Emission
  buffers the segments 1, 2 and 3, a second \<^verbatim>\<open>emit\<close> is accepted, and the first segment of
  the second Emission, which the engine numbers from 0, arrives. \<open>handoff_callback\<close> is the
  state in which the listener of the second Emission calls the callback.
\<close>

definition handoff_events :: "event list" where
  "handoff_events =
     [Emit ''a.mp4'' 1000,
      FsWrite ''out/1000_720p.m3u8'' (engine_list ''5'' ''1'' ''4.000000'' ''720p_0001.ts''),
      Watch 0 ''720p'',
      FsWrite ''out/1000_720p.m3u8'' (engine_list ''5'' ''2'' ''4.000000'' ''720p_0002.ts''),
      Watch 0 ''720p'',
      FsWrite ''out/1000_720p.m3u8'' (engine_list ''5'' ''3'' ''4.000000'' ''720p_0003.ts''),
      Watch 0 ''720p'',
      Emit ''b.mp4'' 2000,
      FsWrite ''out/2000_720p.m3u8'' (engine_list ''5'' ''0'' ''4.000000'' ''720p_0000.ts''),
      Watch 1 ''720p'']"

definition handoff_callback :: session where
  "handoff_callback =
     push_snapshot 1 ''720p'' (example_snapshot 0 ''720p_0000.ts'')
       (run (new_session 4 3) (butlast handoff_events))"

text \<open>
  The same scenario with the segment files the two engines write next to their playlists.
\<close>

definition eviction_events :: "event list" where
  "eviction_events =
     [Emit ''a.mp4'' 1000,
      FsWrite ''out/720p_0001.ts'' ''segment 1 of a'',
      FsWrite ''out/1000_720p.m3u8'' (engine_list ''5'' ''1'' ''4.000000'' ''720p_0001.ts''),
      Watch 0 ''720p'',
      FsWrite ''out/720p_0002.ts'' ''segment 2 of a'',
      FsWrite ''out/1000_720p.m3u8'' (engine_list ''5'' ''2'' ''4.000000'' ''720p_0002.ts''),
      Watch 0 ''720p'',
      FsWrite ''out/720p_0003.ts'' ''segment 3 of a'',
      FsWrite ''out/1000_720p.m3u8'' (engine_list ''5'' ''3'' ''4.000000'' ''720p_0003.ts''),
      Watch 0 ''720p'',
      Emit ''b.mp4'' 2000,
      FsWrite ''out/720p_0000.ts'' ''segment 0 of b'',
      FsWrite ''out/2000_720p.m3u8'' (engine_list ''5'' ''0'' ''4.000000'' ''720p_0000.ts''),
      Watch 1 ''720p'']"

text \<open>
  A view as the callback means to build it in that scenario, and the object it means to
  pass to \<^verbatim>\<open>writeMasterList\<close> for it.
\<close>

definition example_view :: "item list" where
  "example_view =
     [item_of 0 (example_snapshot 2 ''720p_0002.ts''),
      item_of 0 (example_snapshot 3 ''720p_0003.ts''),
      (item_of 1 (example_snapshot 0 ''720p_0000.ts''))
        \<lparr>it_segment := \<lparr>vs_duration = ''4.000000'', vs_file = ''720p_0000.ts'',
                         discontinuity = True\<rparr>\<rparr>]"

definition example_playlist :: playlist where
  "example_playlist =
     \<lparr>pl_duration = Some 5, pl_sequence = 2, segments = map it_segment example_view\<rparr>"

text \<open>The same playlist state of the engine delivered to the listener twice.\<close>

definition repeated_events :: "event list" where
  "repeated_events =
     [Emit ''a.mp4'' 1000,
      FsWrite ''out/1000_720p.m3u8'' (engine_list ''5'' ''7'' ''4.000000'' ''720p_0007.ts''),
      Watch 0 ''720p'',
      Watch 0 ''720p'']"

text \<open>The first segment of the first Emission of a session.\<close>

definition first_segment_events :: "event list" where
  "first_segment_events =
     [Emit ''a.mp4'' 1000,
      FsWrite ''out/1000_720p.m3u8'' (engine_list ''5'' ''0'' ''4.000000'' ''720p_0000.ts''),
      Watch 0 ''720p'']"

text \<open>Four segments of one Emission, for a window of 3.\<close>

definition overflow_events :: "event list" where
  "overflow_events =
     [Emit ''a.mp4'' 1000,
      FsWrite ''out/1000_720p.m3u8'' (engine_list ''5'' ''0'' ''4.000000'' ''720p_0000.ts''),
      Watch 0 ''720p'',
      FsWrite ''out/1000_720p.m3u8'' (engine_list ''5'' ''1'' ''4.000000'' ''720p_0001.ts''),
      Watch 0 ''720p'',
      FsWrite ''out/1000_720p.m3u8'' (engine_list ''5'' ''2'' ''4.000000'' ''720p_0002.ts''),
      Watch 0 ''720p'',
      FsWrite ''out/1000_720p.m3u8'' (engine_list ''5'' ''3'' ''4.000000'' ''720p_0003.ts''),
      Watch 0 ''720p'']"

text \<open>
  Scenario C of the spec with a window of 1: one segment of a first Emission, a second
  \<^verbatim>\<open>emit\<close>, and two segments of the second Emission, after which the window has no
  room for the segment of the first.
\<close>

definition release_events :: "event list" where
  "release_events =
     [Emit ''a.mp4'' 1000,
      FsWrite ''out/1000_720p.m3u8'' (engine_list ''5'' ''0'' ''4.000000'' ''720p_0000.ts''),
      Watch 0 ''720p'',
      Emit ''b.mp4'' 2000,
      FsWrite ''out/2000_720p.m3u8'' (engine_list ''5'' ''0'' ''4.000000'' ''720p_0000.ts''),
      Watch 1 ''720p'',
      FsWrite ''out/2000_720p.m3u8'' (engine_list ''5'' ''1'' ''4.000000'' ''720p_0001.ts''),
      Watch 1 ''720p'']"

text \<open>
  The diagnostic stream of a process whose input is missing, as the engine words it, and a
  stream whose chunk is the bare phrase, followed by a segment of that process.
\<close>

definition missing_input_events :: "event list" where
  "missing_input_events =
     [Emit ''missing.mp4'' 1000,
      StderrData 0 (''missing.mp4: No such file or directory'' @ [CR, LF])]"

definition bare_phrase_events :: "event list" where
  "bare_phrase_events =
     [Emit ''missing.mp4'' 1000,
      StderrData 0 (''No such file or directory'' @ [CR, LF]),
      FsWrite ''out/1000_720p.m3u8'' (engine_list ''5'' ''0'' ''4.000000'' ''720p_0000.ts''),
      Watch 0 ''720p'']"

section \<open>Texts of numbers and the searches of the codec\<close>

lemma digit_cases: "d < 10 \<Longrightarrow> d = 0 \<or> d = 1 \<or> d = 2 \<or> d = 3 \<or> d = 4 \<or> d = 5 \<or> d = 6 \<or> d = 7 \<or> d = 8 \<or> d = (9::nat)"
  by arith

lemma digit_char_is_digit: "d < 10 \<Longrightarrow> is_digit (digit_char d)"
  using digit_cases [of d] by (auto simp: is_digit_def digit_char_def)

lemma digit_val_digit_char: "d < 10 \<Longrightarrow> digit_val (digit_char d) = d"
  using digit_cases [of d] by (auto simp: digit_val_def digit_char_def)

lemma show_nat_digits: "list_all is_digit (show_nat n)"
proof (induction n rule: show_nat.induct)
  case (1 n)
  show ?case
  proof (cases "n < 10")
    case True
    then show ?thesis
      by (subst show_nat.simps) (simp add: digit_char_is_digit)
  next
    case False
    then show ?thesis
      using 1 by (subst show_nat.simps) (simp add: digit_char_is_digit)
  qed
qed

lemma show_nat_nonempty: "show_nat n \<noteq> []"
  by (subst show_nat.simps) simp

lemma parse_nat_snoc: "parse_nat (ds @ [c]) = 10 * parse_nat ds + digit_val c"
  by (simp add: parse_nat_def)

lemma parse_nat_show_nat: "parse_nat (show_nat n) = n"
proof (induction n rule: show_nat.induct)
  case (1 n)
  show ?case
  proof (cases "n < 10")
    case True
    then show ?thesis
      by (subst show_nat.simps) (simp add: parse_nat_def digit_val_digit_char)
  next
    case False
    then have "parse_nat (show_nat (n div 10)) = n div 10"
      using 1 by simp
    then show ?thesis
      using False
      by (subst show_nat.simps) (simp add: parse_nat_snoc digit_val_digit_char)
  qed
qed

lemma is_digit_not_special:
  "is_digit c \<Longrightarrow> c \<noteq> LF \<and> c \<noteq> CHR ''#'' \<and> c \<noteq> CHR '','' \<and> c \<noteq> CHR ''E''"
  by (auto simp: is_digit_def LF_def)

lemma frac_digits_digits: "list_all is_digit (frac_digits k num den)"
  by (induction k num den rule: frac_digits.induct) (simp_all add: digit_char_is_digit)

lemma plain_digits: "list_all is_digit t \<Longrightarrow> plain t"
  using is_digit_not_special by (auto simp: plain_def list_all_iff)

lemma plain_append: "plain (a @ b) = (plain a \<and> plain b)"
  by (auto simp: plain_def)

lemma show_number_plain: "plain (show_number x)"
proof (cases x)
  case None
  then show ?thesis by (simp add: show_number_def plain_def LF_def)
next
  case (Some q)
  obtain a b where ab: "quotient_of \<bar>q\<bar> = (a, b)" by (cases "quotient_of \<bar>q\<bar>")
  have 1: "plain (show_nat n)" for n
    by (rule plain_digits [OF show_nat_digits])
  have 2: "plain (frac_digits k n d)" for k n d
    by (rule plain_digits [OF frac_digits_digits])
  have 3: "plain ''-''" "plain ''.''" "plain []"
    by (simp_all add: plain_def LF_def)
  show ?thesis
    using Some ab 1 2 3
    by (simp add: show_number_def Let_def plain_append) (simp add: plain_def LF_def)
qed

lemma show_number_nonempty: "show_number x \<noteq> []"
  by (cases x) (auto simp: show_number_def Let_def show_nat_nonempty split: prod.splits)

lemma strip_prefix_append [simp]: "strip_prefix p (p @ s) = Some s"
  by (induction p) auto

lemma strip_prefix_Some: "strip_prefix p s = Some r \<Longrightarrow> s = p @ r"
  by (induction p s rule: strip_prefix.induct) (auto split: if_splits)

lemma takeWhile_until: "c \<notin> set a \<Longrightarrow> takeWhile (\<lambda>x. x \<noteq> c) (a @ c # b) = a"
  by (induction a) auto

lemma dropWhile_until: "c \<notin> set a \<Longrightarrow> dropWhile (\<lambda>x. x \<noteq> c) (a @ c # b) = c # b"
  by (induction a) auto

lemma takeWhile_line: "LF \<notin> set a \<Longrightarrow> at_line_end rest \<Longrightarrow> takeWhile (\<lambda>x. x \<noteq> LF) (a @ rest) = a"
  by (cases rest) (auto simp: at_line_end_def takeWhile_until)

lemma takeWhile_digits: "list_all is_digit a \<Longrightarrow> takeWhile is_digit (a @ LF # b) = a"
  by (induction a) (auto simp: is_digit_def LF_def)

lemma dropWhile_digits: "list_all is_digit a \<Longrightarrow> dropWhile is_digit (a @ LF # b) = LF # b"
  by (induction a) (auto simp: is_digit_def LF_def)

lemma search_hit: "m s = Some x \<Longrightarrow> search m s = Some x"
  by (cases s) auto

lemma search_skip:
  "(\<And>c cs. c \<noteq> h \<Longrightarrow> m (c # cs) = None) \<Longrightarrow> h \<notin> set p \<Longrightarrow> search m (p @ s) = search m s"
  by (induction p) auto

lemma mediasequence_at_first: "c \<noteq> CHR ''#'' \<Longrightarrow> mediasequence_at (c # cs) = None"
  by (simp add: mediasequence_at_def)

lemma extinf_parts_at_first: "c \<noteq> CHR ''#'' \<Longrightarrow> extinf_parts_at (c # cs) = None"
  by (simp add: extinf_parts_at_def)

lemma extinf_at_first: "c \<noteq> CHR ''#'' \<Longrightarrow> extinf_at (c # cs) = None"
  by (simp add: extinf_at_def extinf_parts_at_first)

lemma mediasequence_at_hit:
  "list_all is_digit ds \<Longrightarrow> ds \<noteq> [] \<Longrightarrow> mediasequence_at (''#EXT-X-MEDIA-SEQUENCE:'' @ ds @ LF # rest) = Some ds"
  unfolding mediasequence_at_def
  by (simp only: strip_prefix_append option.case Let_def takeWhile_digits dropWhile_digits) simp

lemma targetduration_at_hit:
  "LF \<notin> set v \<Longrightarrow> v \<noteq> [] \<Longrightarrow> targetduration_at (''EXT-X-TARGETDURATION:'' @ v @ LF # rest) = Some v"
  unfolding targetduration_at_def
  by (simp add: Let_def takeWhile_until dropWhile_until)

lemma extinf_parts_at_hit:
  assumes "LF \<notin> set l1" "l1 \<noteq> []" "LF \<notin> set l2" "l2 \<noteq> []" "at_line_end rest"
  shows "extinf_parts_at (''#EXTINF:'' @ l1 @ LF # l2 @ rest) = Some (l1, l2)"
  unfolding extinf_parts_at_def
  using assms
  by (simp add: Let_def takeWhile_until dropWhile_until takeWhile_line)

lemma extinf_duration_at_hit:
  assumes "CHR '','' \<notin> set d" "d \<noteq> []"
  shows "extinf_duration_at (''#EXTINF:'' @ d @ CHR '','' # LF # rest) = Some d"
  unfolding extinf_duration_at_def
  using assms
  by (simp add: Let_def takeWhile_until dropWhile_until)

lemma match_all_hit:
  assumes "LF \<notin> set l1" "l1 \<noteq> []" "LF \<notin> set l2" "l2 \<noteq> []" "at_line_end rest"
  shows "match_all (''#EXTINF:'' @ l1 @ LF # l2 @ rest)
           = (''#EXTINF:'' @ l1 @ [LF] @ l2) # match_all rest"
proof -
  have e: "extinf_at (''#EXTINF:'' @ l1 @ LF # l2 @ rest) = Some (''#EXTINF:'' @ l1 @ [LF] @ l2)"
    by (simp only: extinf_at_def extinf_parts_at_hit [OF assms]) simp
  have d: "drop (length (''#EXTINF:'' @ l1 @ [LF] @ l2)) (''#EXTINF:'' @ l1 @ LF # l2 @ rest) = rest"
    by simp
  obtain c cs where c: "''#EXTINF:'' @ l1 @ LF # l2 @ rest = c # cs"
    by simp
  show ?thesis
    using e d unfolding c by simp
qed

lemma match_all_skip: "CHR ''#'' \<notin> set p \<Longrightarrow> match_all (p @ s) = match_all s"
  by (induction p) (auto simp: extinf_at_first)

lemma LF_neq [simp]: "LF \<noteq> CHR ''#''" "CHR ''#'' \<noteq> LF" "LF \<noteq> CHR ''E''" "CHR ''E'' \<noteq> LF"
  "LF \<noteq> CHR '',''" "CHR '','' \<noteq> LF"
  by (simp_all add: LF_def)

lemma join_Cons: "join sep (x # xs) = x @ concat (map ((@) sep) xs)"
  by (induction xs arbitrary: x) auto

lemma join_LF: "join [LF] (x # xs) = x @ concat (map ((#) LF) xs)"
proof -
  have "(@) [LF] = (#) LF"
    by (rule ext) simp
  then show ?thesis
    by (simp add: join_Cons)
qed

lemma all_lines_Inr:
  "all_lines href u sgs = Inr ls \<Longrightarrow>
     concat (map ((#) LF) ls) = concat (map (entry_text href u) sgs)
     \<and> (\<forall>sg\<in>set sgs. file_line href u sg \<noteq> None)"
proof (induction sgs arbitrary: ls)
  case Nil
  then show ?case by simp
next
  case (Cons sg sgs)
  from Cons.prems obtain l1 l2 where
    1: "segment_lines href u sg = Inr l1" and 2: "all_lines href u sgs = Inr l2" and ls: "ls = l1 @ l2"
    by (auto split: sum.splits)
  from 1 have "concat (map ((#) LF) l1) = entry_text href u sg \<and> file_line href u sg \<noteq> None"
    by (auto simp: segment_lines_def entry_text_def file_line_def Let_def split: if_splits option.splits)
  with Cons.IH [OF 2] ls show ?case by simp
qed

lemma m3u8_text_Inr:
  assumes "m3u8_text href u pl = Inr t"
  shows "t = ''#EXTM3U'' @ LF # ''#EXT-X-VERSION:3'' @ LF # ''#EXT-X-ALLOW-CACHE:YES'' @ LF #
             ''#EXT-X-TARGETDURATION:'' @ show_number (pl_duration pl) @ LF #
             ''#EXT-X-MEDIA-SEQUENCE:'' @ show_nat (pl_sequence pl) @
             concat (map (entry_text href u) (segments pl))"
    and "\<forall>sg\<in>set (segments pl). file_line href u sg \<noteq> None"
proof -
  from assms obtain ls where ls: "all_lines href u (segments pl) = Inr ls"
    and t: "t = join [LF] ([''#EXTM3U'', ''#EXT-X-VERSION:3'', ''#EXT-X-ALLOW-CACHE:YES'',
                  ''#EXT-X-TARGETDURATION:'' @ show_number (pl_duration pl),
                  ''#EXT-X-MEDIA-SEQUENCE:'' @ show_nat (pl_sequence pl)] @ ls)"
    by (auto simp: m3u8_text_def split: sum.splits)
  note a = all_lines_Inr [OF ls]
  have "join [LF] ([''#EXTM3U'', ''#EXT-X-VERSION:3'', ''#EXT-X-ALLOW-CACHE:YES'',
                  ''#EXT-X-TARGETDURATION:'' @ show_number (pl_duration pl),
                  ''#EXT-X-MEDIA-SEQUENCE:'' @ show_nat (pl_sequence pl)] @ ls)
        = ''#EXTM3U'' @ LF # ''#EXT-X-VERSION:3'' @ LF # ''#EXT-X-ALLOW-CACHE:YES'' @ LF #
             ''#EXT-X-TARGETDURATION:'' @ show_number (pl_duration pl) @ LF #
             ''#EXT-X-MEDIA-SEQUENCE:'' @ show_nat (pl_sequence pl) @ concat (map ((#) LF) ls)"
    by (simp add: join_LF)
  with t a show "t = ''#EXTM3U'' @ LF # ''#EXT-X-VERSION:3'' @ LF # ''#EXT-X-ALLOW-CACHE:YES'' @ LF #
             ''#EXT-X-TARGETDURATION:'' @ show_number (pl_duration pl) @ LF #
             ''#EXT-X-MEDIA-SEQUENCE:'' @ show_nat (pl_sequence pl) @
             concat (map (entry_text href u) (segments pl))"
    by simp
  from a show "\<forall>sg\<in>set (segments pl). file_line href u sg \<noteq> None"
    by simp
qed

lemma at_line_end_entries: "at_line_end (concat (map (entry_text href u) sgs))"
  by (cases sgs) (auto simp: at_line_end_def entry_text_def)

lemma match_all_discontinuity:
  "match_all (LF # ''#EXT-X-DISCONTINUITY'' @ s) = match_all s"
  by (simp add: extinf_at_def extinf_parts_at_def)

lemma match_all_entry:
  assumes "entry_ok href u sg" "at_line_end rest"
  shows "match_all (entry_text href u sg @ rest)
           = (''#EXTINF:'' @ (vs_duration sg @ '','') @ [LF] @ the (file_line href u sg)) # match_all rest"
proof -
  let ?e = "''#EXTINF:'' @ (vs_duration sg @ '','') @ LF # the (file_line href u sg) @ rest"
  have hit: "match_all ?e
           = (''#EXTINF:'' @ (vs_duration sg @ '','') @ [LF] @ the (file_line href u sg)) # match_all rest"
    using assms by (intro match_all_hit) (auto simp: entry_ok_def duration_ok_def line_ok_def)
  have lf: "match_all (LF # ?e) = match_all ?e"
    by (simp add: extinf_at_first)
  show ?thesis
  proof (cases "discontinuity sg")
    case True
    have "match_all (entry_text href u sg @ rest) = match_all (LF # ''#EXT-X-DISCONTINUITY'' @ (LF # ?e))"
      using True by (simp add: entry_text_def)
    also have "\<dots> = match_all (LF # ?e)"
      by (rule match_all_discontinuity)
    finally show ?thesis
      using lf hit by simp
  next
    case False
    have "match_all (entry_text href u sg @ rest) = match_all (LF # ?e)"
      using False by (simp add: entry_text_def)
    then show ?thesis
      using lf hit by simp
  qed
qed

lemma match_all_entries:
  "\<forall>sg\<in>set sgs. entry_ok href u sg \<Longrightarrow>
     match_all (concat (map (entry_text href u) sgs))
       = map (\<lambda>sg. ''#EXTINF:'' @ (vs_duration sg @ '','') @ [LF] @ the (file_line href u sg)) sgs"
proof (induction sgs)
  case Nil
  then show ?case by simp
next
  case (Cons sg sgs)
  have "match_all (entry_text href u sg @ concat (map (entry_text href u) sgs))
          = (''#EXTINF:'' @ (vs_duration sg @ '','') @ [LF] @ the (file_line href u sg))
            # match_all (concat (map (entry_text href u) sgs))"
    using Cons.prems by (intro match_all_entry at_line_end_entries) simp
  then show ?case
    using Cons by simp
qed

lemma plain_no_hash: "plain t \<Longrightarrow> CHR ''#'' \<notin> set t" and plain_no_LF: "plain t \<Longrightarrow> LF \<notin> set t"
  by (simp_all add: plain_def)

lemma parse_tags:
  assumes P1: "\<And>X. search targetduration_at (P @ CHR ''#'' # X) = search targetduration_at X"
      and P2: "\<And>X. search mediasequence_at (P @ X) = search mediasequence_at X"
      and P3: "\<And>X. match_all (P @ X) = match_all X"
      and D: "plain D" "D \<noteq> []" and N: "list_all is_digit N" "N \<noteq> []"
  shows "search targetduration_at
           (P @ ''#EXT-X-TARGETDURATION:'' @ D @ LF # ''#EXT-X-MEDIA-SEQUENCE:'' @ N @ LF # body) = Some D"
    and "search mediasequence_at
           (P @ ''#EXT-X-TARGETDURATION:'' @ D @ LF # ''#EXT-X-MEDIA-SEQUENCE:'' @ N @ LF # body) = Some N"
    and "match_all
           (P @ ''#EXT-X-TARGETDURATION:'' @ D @ LF # ''#EXT-X-MEDIA-SEQUENCE:'' @ N @ LF # body)
           = match_all (LF # body)"
proof -
  let ?M = "''#EXT-X-MEDIA-SEQUENCE:'' @ N @ LF # body"
  have "search targetduration_at (P @ ''#EXT-X-TARGETDURATION:'' @ D @ LF # ?M)
          = search targetduration_at (''EXT-X-TARGETDURATION:'' @ D @ LF # ?M)"
    using P1 [of "''EXT-X-TARGETDURATION:'' @ D @ LF # ?M"] by simp
  also have "\<dots> = Some D"
    by (intro search_hit targetduration_at_hit plain_no_LF D)
  finally show "search targetduration_at (P @ ''#EXT-X-TARGETDURATION:'' @ D @ LF # ?M) = Some D" .
  have "search mediasequence_at (P @ ''#EXT-X-TARGETDURATION:'' @ D @ LF # ?M)
          = search mediasequence_at (''#EXT-X-TARGETDURATION:'' @ D @ LF # ?M)"
    by (rule P2)
  also have "\<dots> = search mediasequence_at (D @ LF # ?M)"
    by (simp add: mediasequence_at_def)
  also have "\<dots> = search mediasequence_at (LF # ?M)"
    by (intro search_skip [where h = "CHR ''#''"] mediasequence_at_first plain_no_hash D)
  also have "\<dots> = search mediasequence_at ?M"
    by (simp add: mediasequence_at_first)
  also have "\<dots> = Some N"
    by (intro search_hit mediasequence_at_hit N)
  finally show "search mediasequence_at (P @ ''#EXT-X-TARGETDURATION:'' @ D @ LF # ?M) = Some N" .
  have "match_all (P @ ''#EXT-X-TARGETDURATION:'' @ D @ LF # ?M)
          = match_all (''#EXT-X-TARGETDURATION:'' @ D @ LF # ?M)"
    by (rule P3)
  also have "\<dots> = match_all (D @ LF # ?M)"
    by (simp add: extinf_at_def extinf_parts_at_def)
  also have "\<dots> = match_all (LF # ?M)"
    by (intro match_all_skip plain_no_hash D)
  also have "\<dots> = match_all (N @ LF # body)"
    by (simp add: extinf_at_def extinf_parts_at_def)
  also have "\<dots> = match_all (LF # body)"
    by (intro match_all_skip plain_no_hash plain_digits N)
  finally show "match_all (P @ ''#EXT-X-TARGETDURATION:'' @ D @ LF # ?M) = match_all (LF # body)" .
qed

lemma readList_text_parts:
  assumes "search targetduration_at data = Some D"
      and "search mediasequence_at data = Some N"
      and "match_all data = ms @ [''#EXTINF:'' @ (d @ '','') @ [LF] @ f]"
      and "duration_ok d" "line_ok f"
  shows "readList_text data
           = Inr \<lparr>duration = D, sequence = parse_nat N,
                  segment = \<lparr>seg_duration = d, seg_file = f\<rparr>\<rparr>"
proof -
  let ?m = "''#EXTINF:'' @ (d @ '','') @ [LF] @ f"
  have 1: "search extinf_duration_at ?m = Some d"
    using assms(4) extinf_duration_at_hit [of d f]
    by (intro search_hit) (simp add: duration_ok_def)
  have "extinf_parts_at (''#EXTINF:'' @ (d @ '','') @ LF # f @ []) = Some (d @ '','', f)"
    using assms(4,5)
    by (intro extinf_parts_at_hit) (auto simp: duration_ok_def line_ok_def at_line_end_def)
  then have 2: "search extinf_file_at ?m = Some f"
    by (intro search_hit) (simp add: extinf_file_at_def)
  obtain x xs where x: "ms @ [?m] = x # xs"
    by (cases ms) auto
  have l: "last (x # xs) = ?m"
    unfolding x [symmetric] by simp
  show ?thesis
    unfolding readList_text_def assms(3) x
    by (simp only: list.case Let_def l assms(1,2) 1 2 option.case)
qed

lemma m3u8_header:
  "search targetduration_at
     ((''#EXTM3U'' @ LF # ''#EXT-X-VERSION:3'' @ LF # ''#EXT-X-ALLOW-CACHE:YES'' @ [LF]) @ CHR ''#'' # X)
     = search targetduration_at X"
  "search mediasequence_at
     ((''#EXTM3U'' @ LF # ''#EXT-X-VERSION:3'' @ LF # ''#EXT-X-ALLOW-CACHE:YES'' @ [LF]) @ X)
     = search mediasequence_at X"
  "match_all ((''#EXTM3U'' @ LF # ''#EXT-X-VERSION:3'' @ LF # ''#EXT-X-ALLOW-CACHE:YES'' @ [LF]) @ X)
     = match_all X"
  by (simp_all add: targetduration_at_def mediasequence_at_def extinf_at_def extinf_parts_at_def)

lemma engine_header:
  "search targetduration_at ((''#EXTM3U'' @ LF # ''#EXT-X-VERSION:3'' @ [LF]) @ CHR ''#'' # X)
     = search targetduration_at X"
  "search mediasequence_at ((''#EXTM3U'' @ LF # ''#EXT-X-VERSION:3'' @ [LF]) @ X)
     = search mediasequence_at X"
  "match_all ((''#EXTM3U'' @ LF # ''#EXT-X-VERSION:3'' @ [LF]) @ X) = match_all X"
  by (simp_all add: targetduration_at_def mediasequence_at_def extinf_at_def extinf_parts_at_def)

lemma readList_text_engine_list:
  assumes "plain td" "td \<noteq> []" "list_all is_digit q" "q \<noteq> []" "duration_ok d" "line_ok f"
  shows "readList_text (engine_list td q d f)
           = Inr \<lparr>duration = td, sequence = parse_nat q,
                  segment = \<lparr>seg_duration = d, seg_file = f\<rparr>\<rparr>"
proof -
  let ?P = "''#EXTM3U'' @ LF # ''#EXT-X-VERSION:3'' @ [LF]"
  let ?body = "''#EXTINF:'' @ (d @ '','') @ LF # f @ [LF]"
  have e: "engine_list td q d f
             = ?P @ ''#EXT-X-TARGETDURATION:'' @ td @ LF # ''#EXT-X-MEDIA-SEQUENCE:'' @ q @ LF # ?body"
    by (simp add: engine_list_def)
  note p = parse_tags [of ?P, OF engine_header assms(1-4), of ?body]
  have "match_all (LF # ?body) = match_all ?body"
    by (simp add: extinf_at_first)
  also have "\<dots> = (''#EXTINF:'' @ (d @ '','') @ [LF] @ f) # match_all [LF]"
    using assms(5,6)
    by (intro match_all_hit) (auto simp: duration_ok_def line_ok_def at_line_end_def)
  also have "match_all [LF] = []"
    by (simp add: extinf_at_first)
  finally have m: "match_all (engine_list td q d f) = [] @ [''#EXTINF:'' @ (d @ '','') @ [LF] @ f]"
    unfolding e p(3) by simp
  show ?thesis
    by (rule readList_text_parts [OF _ _ m assms(5,6)]) (simp_all only: e p(1,2))
qed

lemma m3u8_round_trip:
  assumes t: "m3u8_text href u pl = Inr t" and ne: "segments pl \<noteq> []"
      and ok: "\<forall>sg\<in>set (segments pl). entry_ok href u sg"
  shows "readList_text t
           = Inr \<lparr>duration = show_number (pl_duration pl), sequence = pl_sequence pl,
                  segment = \<lparr>seg_duration = vs_duration (last (segments pl)),
                              seg_file = the (file_line href u (last (segments pl)))\<rparr>\<rparr>"
proof -
  let ?P = "''#EXTM3U'' @ LF # ''#EXT-X-VERSION:3'' @ LF # ''#EXT-X-ALLOW-CACHE:YES'' @ [LF]"
  let ?D = "show_number (pl_duration pl)"
  let ?N = "show_nat (pl_sequence pl)"
  let ?body = "concat (map (entry_text href u) (segments pl))"
  let ?m = "\<lambda>sg. ''#EXTINF:'' @ (vs_duration sg @ '','') @ [LF] @ the (file_line href u sg)"
  have "?body \<noteq> []"
    using ne by (cases "segments pl") (auto simp: entry_text_def)
  then have "?body = LF # tl ?body"
    using at_line_end_entries [of href u "segments pl"] by (cases ?body) (auto simp: at_line_end_def)
  then obtain body' where body': "?body = LF # body'" ..
  have e: "t = ?P @ ''#EXT-X-TARGETDURATION:'' @ ?D @ LF # ''#EXT-X-MEDIA-SEQUENCE:'' @ ?N @ LF # body'"
    using m3u8_text_Inr(1) [OF t] body' by simp
  note p = parse_tags [of ?P, OF m3u8_header show_number_plain show_number_nonempty
             show_nat_digits show_nat_nonempty, of "pl_duration pl" "pl_sequence pl" body']
  have "match_all t = match_all ?body"
    unfolding e p(3) body' ..
  also have "\<dots> = map ?m (segments pl)"
    by (rule match_all_entries [OF ok])
  also have "\<dots> = map ?m (butlast (segments pl)) @ [?m (last (segments pl))]"
    using ne by (metis (no_types, lifting) append_butlast_last_id list.simps(8,9) map_append)
  finally have m: "match_all t = map ?m (butlast (segments pl)) @ [?m (last (segments pl))]" .
  have l: "entry_ok href u (last (segments pl))"
    using ok ne by simp
  have "readList_text t
          = Inr \<lparr>duration = ?D, sequence = parse_nat ?N,
                 segment = \<lparr>seg_duration = vs_duration (last (segments pl)),
                             seg_file = the (file_line href u (last (segments pl)))\<rparr>\<rparr>"
    using l by (intro readList_text_parts [OF _ _ m]) (simp_all only: e p(1,2) entry_ok_def)
  then show ?thesis
    by (simp add: parse_nat_show_nat)
qed

lemma search_Some: "search m s = Some x \<Longrightarrow> \<exists>pre suf. s = pre @ suf \<and> m suf = Some x"
proof (induction s)
  case Nil
  then show ?case by simp
next
  case (Cons c cs)
  show ?case
  proof (cases "m (c # cs)")
    case None
    with Cons.prems have "search m cs = Some x" by simp
    from Cons.IH [OF this] obtain pre suf where "cs = pre @ suf" "m suf = Some x" by blast
    then have "c # cs = (c # pre) @ suf \<and> m suf = Some x" by simp
    then show ?thesis by blast
  next
    case (Some y)
    with Cons.prems have "c # cs = [] @ (c # cs) \<and> m (c # cs) = Some x" by simp
    then show ?thesis by blast
  qed
qed

lemma extinf_parts_at_form:
  assumes "extinf_parts_at s = Some (l1, l2)"
  shows "l1 \<noteq> [] \<and> l2 \<noteq> [] \<and> LF \<notin> set l1 \<and> LF \<notin> set l2"
proof -
  from assms obtain t where t: "strip_prefix ''#EXTINF:'' s = Some t"
    by (auto simp: extinf_parts_at_def split: option.splits)
  have l1: "l1 = takeWhile (\<lambda>c. c \<noteq> LF) t" and ne: "l1 \<noteq> []"
    and l2: "l2 = takeWhile (\<lambda>c. c \<noteq> LF) (tl (dropWhile (\<lambda>c. c \<noteq> LF) t))" and ne2: "l2 \<noteq> []"
    using assms t by (auto simp: extinf_parts_at_def Let_def split: if_splits)
  have "LF \<notin> set l1"
    unfolding l1 by (auto dest: set_takeWhileD)
  moreover have "LF \<notin> set l2"
    unfolding l2 by (auto dest: set_takeWhileD)
  ultimately show ?thesis
    using ne ne2 by simp
qed

lemma match_all_form:
  "x \<in> set (match_all s) \<Longrightarrow>
     \<exists>l1 l2. x = ''#EXTINF:'' @ l1 @ [LF] @ l2 \<and> LF \<notin> set l1 \<and> LF \<notin> set l2"
proof (induction s rule: match_all.induct)
  case 1
  then show ?case by simp
next
  case (2 c cs)
  show ?case
  proof (cases "extinf_at (c # cs)")
    case None
    with 2 show ?thesis by simp
  next
    case (Some m)
    then obtain l1 l2 where p: "extinf_parts_at (c # cs) = Some (l1, l2)"
      and m: "m = ''#EXTINF:'' @ l1 @ [LF] @ l2"
      by (auto simp: extinf_at_def)
    from "2.prems" Some have "x = m \<or> x \<in> set (match_all (drop (length m) (c # cs)))"
      by simp
    then show ?thesis
    proof
      assume "x = m"
      with m extinf_parts_at_form [OF p] show ?thesis by blast
    next
      assume "x \<in> set (match_all (drop (length m) (c # cs)))"
      then show ?thesis by (rule "2.IH"(2) [OF Some])
    qed
  qed
qed

lemma extinf_duration_at_form:
  assumes "extinf_duration_at s = Some x"
  shows "\<exists>r. s = ''#EXTINF:'' @ x @ CHR '','' # LF # r" and "x \<noteq> []" and "CHR '','' \<notin> set x"
proof -
  from assms obtain t where t: "strip_prefix ''#EXTINF:'' s = Some t"
    by (auto simp: extinf_duration_at_def split: option.splits)
  let ?r = "dropWhile (\<lambda>c. c \<noteq> CHR '','') t"
  have x: "x = takeWhile (\<lambda>c. c \<noteq> CHR '','') t" and ne: "x \<noteq> []"
    and r: "take 2 ?r = [CHR '','', LF]"
    using assms t by (auto simp: extinf_duration_at_def Let_def split: if_splits)
  have "?r = take 2 ?r @ drop 2 ?r"
    by simp
  then have "?r = CHR '','' # LF # drop 2 ?r"
    unfolding r by simp
  moreover have "t = x @ ?r"
    unfolding x by simp
  ultimately have "s = ''#EXTINF:'' @ x @ CHR '','' # LF # drop 2 ?r"
    using strip_prefix_Some [OF t] by simp
  then show "\<exists>r. s = ''#EXTINF:'' @ x @ CHR '','' # LF # r" ..
  show "x \<noteq> []" by (rule ne)
  show "CHR '','' \<notin> set x"
    unfolding x by (auto dest: set_takeWhileD)
qed

lemma readList_text_ok:
  assumes "readList_text data = Inr snap"
  shows "snapshot_ok snap"
proof -
  from assms obtain m ms d q sd f where
    ma: "match_all data = m # ms" and
    sd: "search extinf_duration_at (last (m # ms)) = Some sd" and
    f: "search extinf_file_at (last (m # ms)) = Some f" and
    snap: "snap = \<lparr>duration = d, sequence = parse_nat q, segment = \<lparr>seg_duration = sd, seg_file = f\<rparr>\<rparr>"
    by (auto simp: readList_text_def Let_def split: list.splits option.splits)
  let ?seg = "last (m # ms)"
  have "?seg \<in> set (match_all data)"
    unfolding ma by (rule last_in_set) simp
  from match_all_form [OF this] obtain l1 l2 where
    seg: "?seg = ''#EXTINF:'' @ l1 @ [LF] @ l2" and l: "LF \<notin> set l1" "LF \<notin> set l2"
    by blast
  have c1: "count_list ?seg LF = 1"
    unfolding seg using l by (simp add: LF_def count_list_0_iff)
  from search_Some [OF sd] obtain pre suf where
    ps: "?seg = pre @ suf" and suf: "extinf_duration_at suf = Some sd"
    by blast
  from extinf_duration_at_form [OF suf] obtain r where
    sf: "suf = ''#EXTINF:'' @ sd @ CHR '','' # LF # r" and sdn: "sd \<noteq> []" "CHR '','' \<notin> set sd"
    by blast
  have "count_list ?seg LF = count_list pre LF + count_list sd LF + 1 + count_list r LF"
    unfolding ps sf by (simp add: LF_def)
  with c1 have "count_list sd LF = 0"
    by simp
  then have "LF \<notin> set sd"
    by (simp add: count_list_0_iff)
  with sdn have 1: "duration_ok sd"
    by (simp add: duration_ok_def)
  from search_Some [OF f] obtain pre' suf' where "extinf_file_at suf' = Some f"
    by blast
  then obtain k1 where "extinf_parts_at suf' = Some (k1, f)"
    by (auto simp: extinf_file_at_def)
  from extinf_parts_at_form [OF this] have 2: "line_ok f"
    by (simp add: line_ok_def)
  show ?thesis
    unfolding snap using 1 2 by (simp add: snapshot_ok_def)
qed

lemma readList_ok: "readList fs p = Inr snap \<Longrightarrow> snapshot_ok snap"
  by (auto simp: readList_def readList_text_ok split: option.splits)

section \<open>Paths, buffers and the callback\<close>

lemma split_slash_plain: "CHR ''/'' \<notin> set t \<Longrightarrow> split_slash acc t = [rev acc @ t]"
  by (induction t arbitrary: acc) auto

lemma path_join_out:
  assumes "name \<noteq> []" "CHR ''/'' \<notin> set name" "name \<noteq> ''.''" "name \<noteq> ''..''"
  shows "path_join ''out'' name = ''out/'' @ name"
proof -
  have "split_slash [] (''out/'' @ name) = ''out'' # split_slash [] name"
    by simp
  then have s: "split_slash [] (''out/'' @ name) = [''out'', name]"
    using split_slash_plain [OF assms(2), of "[]"] by simp
  have l: "last (''out/'' @ name) \<noteq> CHR ''/''"
    using assms(1,2) by (metis last_appendR last_in_set)
  show ?thesis
    using assms s l by (simp add: path_join_def path_normalize_def Let_def)
qed

lemma nth_update_total: "(xs[i := x]) ! j = (if i = j \<and> i < length xs then x else xs ! j)"
  by (cases "i < length xs") (auto simp: nth_list_update list_update_beyond)

lemma map_of_set_buffer:
  "map_of (set_buffer res buf kvs) k =
     (if k = res then map_option (\<lambda>v. buf) (map_of kvs k) else map_of kvs k)"
  by (induction kvs) (auto simp: set_buffer_def)

lemma buffer_promote: "buffer (promote e s) a r = buffer s a r"
  by (auto simp: promote_def Emission_stop_def update_emission_def buffer_def nth_update_total
           split: option.splits)

lemma buffer_push_snapshot:
  "a < length (heap s) \<Longrightarrow> buffer s a res = Some buf \<Longrightarrow>
     buffer (push_snapshot a res snap s) a' r' =
       (if a' = a \<and> r' = res then Some (buf @ [snap]) else buffer s a' r')"
  by (auto simp: push_snapshot_def update_emission_def buffer_def map_of_set_buffer nth_update_total)

lemma promote_files: "files (promote e s) = files s"
  by (auto simp: promote_def Emission_stop_def update_emission_def split: option.splits)

lemma items_of_throws: "items_of a r s = Inl TypeError"
  by (simp add: items_of_def Emission_list_def buffer_tables_def)

lemma merged_throws: "merged r s = Inl TypeError"
  by (simp add: merged_def items_of_throws split: option.splits)

lemma callback_throws: "onWrite e r s = (Inl TypeError, promote e s)"
  by (simp add: onWrite_def Let_def merged_throws)

lemma list_object_Inr:
  assumes "list_object num view = Inr pl"
  shows "view \<noteq> []" and "pl_sequence pl = it_sequence (hd view)"
    and "segments pl = map it_segment view"
  using assms by (auto simp: list_object_def split: list.splits)

section \<open>Evaluation\<close>

lemmas model_defs =
  new_session_def FileStreaming_def inside_def enabled_def RENDITIONS_def master_lines_def
  truthy_def show_nat.simps digit_char_def path_join_out run_def emit_def Emission_def
  Emission_start_def update_emission_def listDir_of_def watch_listener_def
  buffer_def push_snapshot_def readList_def set_buffer_def callback_throws promote_def
  isEmpty_def Emission_stop_def on_stderr_def on_error_def on_close_def split_crlf_def
  knownErrors_def Let_def is_digit_def parse_nat_def digit_val_def
  readList_text_engine_list plain_def duration_ok_def line_ok_def LF_def CR_def
  example_snapshot_def item_of_def

lemma handoff_refs:
  "current_ref (run (new_session 4 3) handoff_events) = Some 1"
  "last_ref (run (new_session 4 3) handoff_events) = Some 0"
  by (simp_all add: handoff_events_def model_defs)

section \<open>The accessor renditions\<close>

text \<open>
  C10. For every session, whatever its resolution mask, reading the accessor
  \<^verbatim>\<open>renditions\<close> throws: the name \<^verbatim>\<open>LiveStreaming\<close> it refers to is bound nowhere in the
  module, so the evaluation ends in a ReferenceError and never gives the enabled
  renditions.
\<close>

theorem renditions_throws:
  "renditions s = Inl ReferenceError"
  by (simp add: renditions_def module_scope_def)

section \<open>The guard of emit\<close>

text \<open>
  C3. A call of \<^verbatim>\<open>emit\<close> made while a draining Emission exists is rejected with the
  reason \<^verbatim>\<open>Transition in progress\<close> and leaves the whole state as it was: no Emission is
  constructed, no process is started and no listener is registered. After every sequence
  of events at most one Emission is in the draining role.
\<close>

theorem emit_rejected_while_draining:
  assumes "draining s d"
  shows "emit input now s = (Inl ''Transition in progress'', s)
         \<and> card {a. draining (run s evs) a} \<le> 1"
proof -
  have "last_ref s = Some d"
    using assms by (simp add: draining_def)
  then have rejected: "emit input now s = (Inl ''Transition in progress'', s)"
    by (simp add: emit_def)
  have "{a. draining (run s evs) a} \<subseteq> (case last_ref (run s evs) of None \<Rightarrow> {} | Some l \<Rightarrow> {l})"
    by (auto simp: draining_def)
  moreover have "finite (case last_ref (run s evs) of None \<Rightarrow> {} | Some l \<Rightarrow> {l})"
    by (simp split: option.split)
  ultimately have "card {a. draining (run s evs) a}
                     \<le> card (case last_ref (run s evs) of None \<Rightarrow> {} | Some l \<Rightarrow> {l})"
    by (rule card_mono [rotated])
  also have "\<dots> \<le> 1"
    by (simp split: option.split)
  finally show ?thesis
    using rejected by simp
qed

theorem emit_rejected_while_draining_witness:
  "draining (run (new_session 4 3) handoff_events) 0
   \<and> \<not> isEmpty (heap (run (new_session 4 3) handoff_events) ! 0)
   \<and> emit ''c.mp4'' 3000 (run (new_session 4 3) handoff_events)
       = (Inl ''Transition in progress'', run (new_session 4 3) handoff_events)
   \<and> card {a. draining (run (run (new_session 4 3) handoff_events) [Emit ''c.mp4'' 3000]) a} \<le> 1"
proof -
  have d: "draining (run (new_session 4 3) handoff_events) 0"
    by (simp add: draining_def handoff_refs)
  have "\<not> isEmpty (heap (run (new_session 4 3) handoff_events) ! 0)"
    by (simp add: handoff_events_def model_defs)
  then show ?thesis
    using d emit_rejected_while_draining [OF d, of "''c.mp4''" 3000 "[Emit ''c.mp4'' 3000]"]
    by simp
qed

section \<open>Ingest\<close>

text \<open>
  C5, as the code has it. When a listener fires and its file parses, the snapshot is
  appended to the buffer of the rendition whatever its sequence number, and the callback
  runs on that buffer; afterwards the buffer is what the evictions left of it from the
  front. No entry is dropped or merged because its sequence number is already buffered.
\<close>

theorem snapshot_appended_whatever_its_sequence:
  assumes "a < length (heap s)"
      and "files s (listDir_of (heap s ! a) res) = Some data"
      and "readList_text data = Inr snap"
      and "buffer s a res = Some buf"
  shows "(\<exists>w. watch_listener a res s = (w, snd (onWrite a res (push_snapshot a res snap s))))
         \<and> buffer (push_snapshot a res snap s) a res = Some (buf @ [snap])
         \<and> (\<exists>k. buffer (snd (watch_listener a res s)) a res = Some (drop k (buf @ [snap])))"
proof -
  let ?p = "push_snapshot a res snap s"
  have wl: "watch_listener a res s = (Inl TypeError, promote a ?p)"
    using assms by (simp add: watch_listener_def readList_def callback_throws)
  have b: "buffer ?p a res = Some (buf @ [snap])"
    using buffer_push_snapshot [OF assms(1,4)] by simp
  then have "buffer (snd (watch_listener a res s)) a res = Some (drop 0 (buf @ [snap]))"
    by (simp add: wl buffer_promote)
  then have "\<exists>k. buffer (snd (watch_listener a res s)) a res = Some (drop k (buf @ [snap]))" ..
  then show ?thesis
    using wl b by (simp add: callback_throws)
qed

text \<open>
  The claim as stated fails when one playlist state is delivered twice: the buffer then
  holds two entries with the sequence number 7.
\<close>

theorem deduplication_counterexample:
  "buffer (run (new_session 4 3) repeated_events) 0 ''720p''
     = Some [example_snapshot 7 ''720p_0007.ts'', example_snapshot 7 ''720p_0007.ts'']"
  by (simp add: repeated_events_def model_defs)

theorem snapshot_appended_witness:
  "buffer (run (new_session 4 3) (butlast repeated_events)) 0 ''720p''
     = Some [example_snapshot 7 ''720p_0007.ts'']
   \<and> buffer (push_snapshot 0 ''720p'' (example_snapshot 7 ''720p_0007.ts'')
               (run (new_session 4 3) (butlast repeated_events))) 0 ''720p''
       = Some [example_snapshot 7 ''720p_0007.ts'', example_snapshot 7 ''720p_0007.ts'']"
proof -
  let ?s = "run (new_session 4 3) (butlast repeated_events)"
  have a: "0 < length (heap ?s)"
    by (simp add: repeated_events_def model_defs)
  have f: "files ?s (listDir_of (heap ?s ! 0) ''720p'')
             = Some (engine_list ''5'' ''7'' ''4.000000'' ''720p_0007.ts'')"
    by (simp add: repeated_events_def model_defs)
  have r: "readList_text (engine_list ''5'' ''7'' ''4.000000'' ''720p_0007.ts'')
             = Inr (example_snapshot 7 ''720p_0007.ts'')"
    by (simp add: model_defs)
  have b: "buffer ?s 0 ''720p'' = Some [example_snapshot 7 ''720p_0007.ts'']"
    by (simp add: repeated_events_def model_defs)
  show ?thesis
    using snapshot_appended_whatever_its_sequence [OF a f r b] b by simp
qed

section \<open>Fatal phrases in the diagnostic stream\<close>

text \<open>
  C8, evaluated on the code. A chunk in which a fatal phrase appears after the name of the
  input, as the engine writes it, is not recognised: the phrase is compared with whole
  lines of the chunk, so the promise stays pending and the process runs on. A chunk that
  is the bare phrase rejects the promise with the phrase, but the process is not stopped
  and its listeners stay, so a later segment of that Emission is buffered.
\<close>

theorem fatal_phrase_evaluation:
  "em_promise (heap (run (new_session 4 3) missing_input_events) ! 0) = Pending
   \<and> em_process (heap (run (new_session 4 3) missing_input_events) ! 0) = Some Running
   \<and> em_promise (heap (run (new_session 4 3) bare_phrase_events) ! 0)
       = Rejected ''No such file or directory''
   \<and> em_process (heap (run (new_session 4 3) bare_phrase_events) ! 0) = Some Running
   \<and> buffer (run (new_session 4 3) bare_phrase_events) 0 ''720p''
       = Some [example_snapshot 0 ''720p_0000.ts'']"
  by (simp add: missing_input_events_def bare_phrase_events_def settle_def model_defs)

section \<open>The round trip of the media sequence\<close>

text \<open>
  C7. For every view that is not empty, the object the callback's literal makes of it
  (\<open>list_object\<close>, with any coercion of the durations) and every file system:
  when \<^verbatim>\<open>writeMasterList\<close> has written that object to a path, \<^verbatim>\<open>readList\<close> parses the
  file, and the media sequence it returns is the sequence number of the first, that is the
  oldest, element of the view. The entries of the view are taken to be as \<^verbatim>\<open>readList\<close>
  captures them (lemma \<open>readList_ok\<close>: a duration that is not empty and has no comma and
  no line feed, a file name that is not empty and has no line feed), the runtime's
  \<^verbatim>\<open>URL\<close> to give an href that is one line and not empty, and the sequence number to be
  below \<open>2 ^ 53\<close>, where the Number is the integer.
\<close>

theorem media_sequence_round_trip:
  assumes v: "list_object num view = Inr pl"
      and w: "writeMasterList href fileDir u pl fs = (Inr (), fs')"
      and entries: "\<forall>x\<in>set view. duration_ok (vs_duration (it_segment x))
                                 \<and> line_ok (vs_file (it_segment x))"
      and single: "\<forall>f b h. href f b = Some h \<longrightarrow> line_ok h"
      and safe: "it_sequence (hd view) < 2 ^ 53"
  shows "view \<noteq> []
         \<and> (\<exists>snap. readList fs' fileDir = Inr snap \<and> sequence snap = it_sequence (hd view))"
proof -
  note lo = list_object_Inr [OF v]
  from w obtain t where t: "m3u8_text href u pl = Inr t" and fs': "fs' = fs(fileDir \<mapsto> t)"
    by (auto simp: writeMasterList_def split: sum.splits)
  have ok: "\<forall>sg\<in>set (segments pl). entry_ok href u sg"
  proof
    fix sg
    assume m: "sg \<in> set (segments pl)"
    then obtain x where x: "x \<in> set view" and sgx: "sg = it_segment x"
      unfolding lo(3) by auto
    from entries x have d: "duration_ok (vs_duration sg)" and f: "line_ok (vs_file sg)"
      unfolding sgx by simp_all
    from m3u8_text_Inr(2) [OF t] m have "file_line href u sg \<noteq> None"
      by blast
    then have "line_ok (the (file_line href u sg))"
      using f single by (auto simp: file_line_def split: if_splits)
    with d show "entry_ok href u sg"
      by (simp add: entry_ok_def)
  qed
  have "segments pl \<noteq> []"
    using lo(1,3) by simp
  from m3u8_round_trip [OF t this ok]
  have "readList fs' fileDir
          = Inr \<lparr>duration = show_number (pl_duration pl), sequence = pl_sequence pl,
                 segment = \<lparr>seg_duration = vs_duration (last (segments pl)),
                             seg_file = the (file_line href u (last (segments pl)))\<rparr>\<rparr>"
    by (simp add: readList_def fs')
  then show ?thesis
    using lo(1,2) by simp
qed

theorem media_sequence_round_trip_witness:
  "list_object (\<lambda>t. if t = ''5'' then Some 5 else None) example_view = Inr example_playlist
   \<and> map it_sequence example_view = [2, 3, 0]
   \<and> fst (writeMasterList (\<lambda>f u. None) ''out/720p.m3u8'' None example_playlist Map.empty) = Inr ()
   \<and> (\<exists>snap. readList
                (snd (writeMasterList (\<lambda>f u. None) ''out/720p.m3u8'' None example_playlist Map.empty))
                ''out/720p.m3u8'' = Inr snap
              \<and> sequence snap = 2)"
proof -
  let ?num = "\<lambda>t. if t = ''5'' then Some (5::rat) else None"
  let ?href = "(\<lambda>f u. None) :: url_ctor"
  let ?w = "writeMasterList ?href ''out/720p.m3u8'' None example_playlist Map.empty"
  have v: "list_object ?num example_view = Inr example_playlist"
    by (simp add: list_object_def example_view_def example_playlist_def model_defs)
  have q: "map it_sequence example_view = [2, 3, 0]"
    by (simp add: example_view_def model_defs)
  have wf: "fst ?w = Inr ()"
    by (simp add: writeMasterList_def m3u8_text_def segment_lines_def truthy_def
          example_playlist_def example_view_def model_defs)
  then have w: "?w = (Inr (), snd ?w)"
    by (simp add: prod_eq_iff)
  have entries: "\<forall>x\<in>set example_view. duration_ok (vs_duration (it_segment x))
                                      \<and> line_ok (vs_file (it_segment x))"
    by (simp add: example_view_def model_defs)
  have single: "\<forall>f b h. ?href f b = Some h \<longrightarrow> line_ok h"
    by simp
  have h: "it_sequence (hd example_view) = 2"
    by (simp add: example_view_def model_defs)
  then have safe: "it_sequence (hd example_view) < 2 ^ 53"
    by simp
  from media_sequence_round_trip [OF v w entries single safe] v q wf
  show ?thesis
    unfolding h by simp
qed

section \<open>The callback of emit on the code\<close>

text \<open>
  The callback reads \<^verbatim>\<open>this._last.list[r]\<close> and \<^verbatim>\<open>this._current.list[r]\<close>, and an Emission
  has no member \<^verbatim>\<open>list\<close>. After the promotion \<^verbatim>\<open>_current\<close> is set, so every call ends in a
  TypeError at one of the two reads (lemma \<open>callback_throws\<close>): nothing is merged, trimmed,
  disposed, marked or written. The five evaluations below are of this one defect.
\<close>

text \<open>
  C1, evaluated on the code. A session with a window of 3 receives four segments of one
  Emission: each call of the callback ends in a TypeError, the buffer of the rendition
  holds all four snapshots, and no live playlist of the rendition exists.
\<close>

theorem window_overflow_evaluation:
  "listSize (run (new_session 4 3) overflow_events) = 3
   \<and> buffer (run (new_session 4 3) overflow_events) 0 ''720p''
       = Some [example_snapshot 0 ''720p_0000.ts'', example_snapshot 1 ''720p_0001.ts'',
               example_snapshot 2 ''720p_0002.ts'', example_snapshot 3 ''720p_0003.ts'']
   \<and> fst (watch_listener 0 ''720p'' (run (new_session 4 3) (butlast overflow_events)))
       = Inl TypeError
   \<and> files (run (new_session 4 3) overflow_events) ''out/720p.m3u8'' = None"
  by (simp add: overflow_events_def model_defs)

text \<open>
  C2, evaluated on the code. At the handoff of Scenario B the promotion makes the first
  Emission the draining and the second the current one, and both buffer segments of the
  rendition; the callback then ends in a TypeError, and no live playlist, hence no
  discontinuity marker, is written.
\<close>

theorem handoff_marker_evaluation:
  "last_ref (promote 1 handoff_callback) = Some 0
   \<and> current_ref (promote 1 handoff_callback) = Some 1
   \<and> buffer (promote 1 handoff_callback) 0 ''720p''
       = Some [example_snapshot 1 ''720p_0001.ts'', example_snapshot 2 ''720p_0002.ts'',
               example_snapshot 3 ''720p_0003.ts'']
   \<and> buffer (promote 1 handoff_callback) 1 ''720p'' = Some [example_snapshot 0 ''720p_0000.ts'']
   \<and> onWrite 1 ''720p'' handoff_callback = (Inl TypeError, promote 1 handoff_callback)
   \<and> files (promote 1 handoff_callback) ''out/720p.m3u8'' = None"
  by (simp add: handoff_callback_def handoff_events_def model_defs)

text \<open>
  C4, evaluated on the code. In the same scenario with a window of 3, four segments of
  the rendition are buffered after the handoff, those numbered 1, 2 and 3 of the draining
  Emission and the one numbered 0 of the current one; none is evicted, and the file of the
  segment numbered 1 is still on the disk.
\<close>

theorem handoff_eviction_evaluation:
  "listSize (run (new_session 4 3) eviction_events) = 3
   \<and> last_ref (run (new_session 4 3) eviction_events) = Some 0
   \<and> current_ref (run (new_session 4 3) eviction_events) = Some 1
   \<and> map sequence (the (buffer (run (new_session 4 3) eviction_events) 0 ''720p'')) = [1, 2, 3]
   \<and> map sequence (the (buffer (run (new_session 4 3) eviction_events) 1 ''720p'')) = [0]
   \<and> files (run (new_session 4 3) eviction_events) ''out/720p_0001.ts'' = Some ''segment 1 of a''"
  by (simp add: eviction_events_def model_defs)

text \<open>
  C6, evaluated on the code. The first segment of a session, of 4 seconds in a playlist
  whose target duration is 5, is buffered; the callback ends in a TypeError before it
  computes a duration, and no file with a target-duration tag is written for the
  rendition.
\<close>

theorem target_duration_evaluation:
  "buffer (run (new_session 4 3) first_segment_events) 0 ''720p''
     = Some [\<lparr>duration = ''5'', sequence = 0,
              segment = \<lparr>seg_duration = ''4.000000'', seg_file = ''720p_0000.ts''\<rparr>\<rparr>]
   \<and> snd (watch_listener 0 ''720p'' (run (new_session 4 3) (butlast first_segment_events)))
       = run (new_session 4 3) first_segment_events
   \<and> fst (watch_listener 0 ''720p'' (run (new_session 4 3) (butlast first_segment_events)))
       = Inl TypeError
   \<and> files (run (new_session 4 3) first_segment_events) ''out/720p.m3u8'' = None"
  by (simp add: first_segment_events_def model_defs)

text \<open>
  C9, evaluated on the code. With a window of 1, after the handoff and two segments of the
  current Emission the draining Emission, whose process was killed at the promotion, still
  buffers its segment, its playlist file is still on the disk and it is still the draining
  one; a further \<^verbatim>\<open>emit\<close> is therefore rejected.
\<close>

theorem drained_release_evaluation:
  "listSize (run (new_session 4 1) release_events) = 1
   \<and> last_ref (run (new_session 4 1) release_events) = Some 0
   \<and> current_ref (run (new_session 4 1) release_events) = Some 1
   \<and> em_process (heap (run (new_session 4 1) release_events) ! 0) = Some Killed
   \<and> buffer (run (new_session 4 1) release_events) 0 ''720p''
       = Some [example_snapshot 0 ''720p_0000.ts'']
   \<and> buffer (run (new_session 4 1) release_events) 1 ''720p''
       = Some [example_snapshot 0 ''720p_0000.ts'', example_snapshot 1 ''720p_0001.ts'']
   \<and> files (run (new_session 4 1) release_events) ''out/1000_720p.m3u8''
       = Some (engine_list ''5'' ''0'' ''4.000000'' ''720p_0000.ts'')
   \<and> fst (emit ''c.mp4'' 3000 (run (new_session 4 1) release_events))
       = Inl ''Transition in progress''"
  by (simp add: release_events_def model_defs)

end
